theory Spec2Isabelle
  imports Main "HOL-Library.AList"
begin

section \<open>The process environment and the strconv parsers\<close>

text \<open>
  The exporter's \<^verbatim>\<open>main.go\<close> resolves every option in two layers: the default of a flag
  is computed from the process environment by \<^verbatim>\<open>getEnv\<close>, \<^verbatim>\<open>getEnvBool\<close> or
  \<^verbatim>\<open>getEnvInt64\<close>, and \<^verbatim>\<open>flag.Parse\<close> then overrides it with what the command line
  gives. The environment is a partial map from names to values: \<^verbatim>\<open>os.LookupEnv key\<close>
  is \<open>env key\<close>, and a variable set to the empty string is \<open>Some []\<close>.
\<close>

type_synonym environ = "string \<rightharpoonup> string"

datatype num_error = ErrSyntax | ErrRange | ErrBase

text \<open>
  \<^verbatim>\<open>strconv.ParseBool\<close> of the Go standard library accepts exactly twelve spellings.
\<close>

definition ParseBool :: "string \<Rightarrow> num_error + bool" where
  "ParseBool str =
     (if str = ''1'' \<or> str = ''t'' \<or> str = ''T'' \<or> str = ''true'' \<or> str = ''TRUE'' \<or> str = ''True''
      then Inr True
      else if str = ''0'' \<or> str = ''f'' \<or> str = ''F'' \<or> str = ''false'' \<or> str = ''FALSE'' \<or> str = ''False''
      then Inr False
      else Inl ErrSyntax)"

text \<open>
  \<^verbatim>\<open>strconv.ParseInt s base 64\<close> of the Go standard library. \<^verbatim>\<open>getEnvInt64\<close> calls it
  with base 10, the flag package with base 0 (a prefix selects the base and underscores
  may separate digits). Bytes are read through \<open>of_char\<close>; the unsigned accumulator is
  an unbounded integer, never negative, with the 64-bit overflow checks of the library
  written out.
\<close>

definition maxUint64 :: int where
  "maxUint64 = 2 ^ 64 - 1"

definition lower :: "char \<Rightarrow> int" where
  "lower c = or (of_char c) 32"

definition digit_val :: "char \<Rightarrow> int option" where
  "digit_val c =
     (if 48 \<le> (of_char c :: int) \<and> (of_char c :: int) \<le> 57 then Some (of_char c - 48)
      else if 97 \<le> lower c \<and> lower c \<le> 122 then Some (lower c - 97 + 10)
      else None)"

fun parse_digits :: "int \<Rightarrow> bool \<Rightarrow> string \<Rightarrow> int \<Rightarrow> num_error + int" where
  "parse_digits base base0 [] n = Inr n"
| "parse_digits base base0 (c # cs) n =
     (if c = CHR ''_'' \<and> base0 then parse_digits base base0 cs n
      else case digit_val c of
        None \<Rightarrow> Inl ErrSyntax
      | Some d \<Rightarrow>
          if base \<le> d then Inl ErrSyntax
          else if maxUint64 div base + 1 \<le> n then Inl ErrRange
          else if maxUint64 < n * base + d then Inl ErrRange
          else parse_digits base base0 cs (n * base + d))"

fun underscore_scan :: "bool \<Rightarrow> char \<Rightarrow> string \<Rightarrow> bool" where
  "underscore_scan hex saw [] = (saw \<noteq> CHR ''_'')"
| "underscore_scan hex saw (c # cs) =
     (if (48 \<le> (of_char c :: int) \<and> (of_char c :: int) \<le> 57) \<or> (hex \<and> 97 \<le> lower c \<and> lower c \<le> 102)
      then underscore_scan hex (CHR ''0'') cs
      else if c = CHR ''_''
      then (if saw \<noteq> CHR ''0'' then False else underscore_scan hex (CHR ''_'') cs)
      else if saw = CHR ''_'' then False
      else underscore_scan hex (CHR ''!'') cs)"

fun strip_sign :: "string \<Rightarrow> string" where
  "strip_sign [] = []"
| "strip_sign (c # cs) = (if c = CHR ''-'' \<or> c = CHR ''+'' then cs else c # cs)"

fun underscore_prefix :: "string \<Rightarrow> bool" where
  "underscore_prefix (a # b # cs) =
     (if a = CHR ''0'' \<and> (lower b = 98 \<or> lower b = 111 \<or> lower b = 120)
      then underscore_scan (lower b = 120) (CHR ''0'') cs
      else underscore_scan False (CHR ''^'') (a # b # cs))"
| "underscore_prefix s = underscore_scan False (CHR ''^'') s"

definition underscoreOK :: "string \<Rightarrow> bool" where
  "underscoreOK s = underscore_prefix (strip_sign s)"

fun base_prefix :: "string \<Rightarrow> int \<times> string" where
  "base_prefix (a # b # c # cs) =
     (if a = CHR ''0'' then
        (if lower b = 98 then (2, c # cs)
         else if lower b = 111 then (8, c # cs)
         else if lower b = 120 then (16, c # cs)
         else (8, b # c # cs))
      else (10, a # b # c # cs))"
| "base_prefix (a # cs) = (if a = CHR ''0'' then (8, cs) else (10, a # cs))"
| "base_prefix [] = (10, [])"

definition ParseUint :: "string \<Rightarrow> int \<Rightarrow> num_error + int" where
  "ParseUint s base =
     (if s = [] then Inl ErrSyntax
      else if base \<noteq> 0 \<and> (base < 2 \<or> 36 < base) then Inl ErrBase
      else
        let (b, ds) = (if base = 0 then base_prefix s else (base, s)) in
        case parse_digits b (base = 0) ds 0 of
          Inl e \<Rightarrow> Inl e
        | Inr n \<Rightarrow>
            if base = 0 \<and> CHR ''_'' \<in> set ds \<and> \<not> underscoreOK s then Inl ErrSyntax
            else Inr n)"

fun ParseInt :: "string \<Rightarrow> int \<Rightarrow> num_error + int" where
  "ParseInt [] base = Inl ErrSyntax"
| "ParseInt (c # cs) base =
     (let neg = (c = CHR ''-'');
          s = (if c = CHR ''+'' \<or> c = CHR ''-'' then cs else c # cs)
      in case ParseUint s base of
           Inl ErrSyntax \<Rightarrow> Inl ErrSyntax
         | Inl ErrBase \<Rightarrow> Inl ErrBase
         | Inl ErrRange \<Rightarrow> Inl ErrRange
         | Inr un \<Rightarrow>
             if \<not> neg \<and> 2 ^ 63 \<le> un then Inl ErrRange
             else if neg \<and> 2 ^ 63 < un then Inl ErrRange
             else Inr (if neg then - un else un))"

section \<open>The environment resolvers\<close>

definition getEnv :: "environ \<Rightarrow> string \<Rightarrow> string \<Rightarrow> string" where
  "getEnv env key defaultVal =
     (case env key of Some envVal \<Rightarrow> envVal | None \<Rightarrow> defaultVal)"

definition getEnvBool :: "environ \<Rightarrow> string \<Rightarrow> bool \<Rightarrow> bool" where
  "getEnvBool env key defaultVal =
     (case env key of
        Some envVal \<Rightarrow> (case ParseBool envVal of Inr envBool \<Rightarrow> envBool | Inl err \<Rightarrow> defaultVal)
      | None \<Rightarrow> defaultVal)"

definition getEnvInt64 :: "environ \<Rightarrow> string \<Rightarrow> int \<Rightarrow> int" where
  "getEnvInt64 env key defaultVal =
     (case env key of
        Some envVal \<Rightarrow> (case ParseInt envVal 10 of Inr envInt64 \<Rightarrow> envInt64 | Inl err \<Rightarrow> defaultVal)
      | None \<Rightarrow> defaultVal)"

section \<open>The flags of \<^verbatim>\<open>main\<close>\<close>

text \<open>
  Each line of the \<^verbatim>\<open>var\<close> block of \<^verbatim>\<open>main\<close> declares one flag: its name, and the
  expression that computes its default. \<open>FlagString n k d\<close> stands for
  \<^verbatim>\<open>flag.String(n, getEnv(k, d), usage)\<close>, \<open>FlagBool n k d\<close> for
  \<^verbatim>\<open>flag.Bool(n, getEnvBool(k, d), usage)\<close>, \<open>FlagInt64 n k d\<close> for
  \<^verbatim>\<open>flag.Int64(n, getEnvInt64(k, d), usage)\<close>, and \<open>FlagBoolLit n d\<close> for
  \<^verbatim>\<open>flag.Bool(n, d, usage)\<close>, the one flag (\<^verbatim>\<open>version\<close>) that reads no environment
  variable. The table lists the 47 declarations in the order of the source.
\<close>

datatype flag_value = StringValue string | BoolValue bool | Int64Value int

datatype flag_decl =
    FlagString string string string
  | FlagBool string string bool
  | FlagInt64 string string int
  | FlagBoolLit string bool

definition declarations :: "flag_decl list" where
  "declarations =
    [FlagString ''redis.addr'' ''REDIS_ADDR'' ''redis://localhost:6379'',
     FlagString ''redis.user'' ''REDIS_USER'' '''',
     FlagString ''redis.password'' ''REDIS_PASSWORD'' '''',
     FlagString ''redis.password-file'' ''REDIS_PASSWORD_FILE'' '''',
     FlagString ''namespace'' ''REDIS_EXPORTER_NAMESPACE'' ''redis'',
     FlagString ''check-keys'' ''REDIS_EXPORTER_CHECK_KEYS'' '''',
     FlagString ''check-single-keys'' ''REDIS_EXPORTER_CHECK_SINGLE_KEYS'' '''',
     FlagString ''check-key-groups'' ''REDIS_EXPORTER_CHECK_KEY_GROUPS'' '''',
     FlagString ''check-streams'' ''REDIS_EXPORTER_CHECK_STREAMS'' '''',
     FlagString ''check-single-streams'' ''REDIS_EXPORTER_CHECK_SINGLE_STREAMS'' '''',
     FlagBool ''streams-exclude-consumer-metrics'' ''REDIS_EXPORTER_STREAMS_EXCLUDE_CONSUMER_METRICS'' False,
     FlagString ''count-keys'' ''REDIS_EXPORTER_COUNT_KEYS'' '''',
     FlagInt64 ''check-keys-batch-size'' ''REDIS_EXPORTER_CHECK_KEYS_BATCH_SIZE'' 1000,
     FlagString ''script'' ''REDIS_EXPORTER_SCRIPT'' '''',
     FlagString ''web.listen-address'' ''REDIS_EXPORTER_WEB_LISTEN_ADDRESS'' '':9121'',
     FlagString ''web.telemetry-path'' ''REDIS_EXPORTER_WEB_TELEMETRY_PATH'' ''/metrics'',
     FlagString ''log-format'' ''REDIS_EXPORTER_LOG_FORMAT'' ''txt'',
     FlagString ''config-command'' ''REDIS_EXPORTER_CONFIG_COMMAND'' ''CONFIG'',
     FlagString ''connection-timeout'' ''REDIS_EXPORTER_CONNECTION_TIMEOUT'' ''15s'',
     FlagString ''tls-client-key-file'' ''REDIS_EXPORTER_TLS_CLIENT_KEY_FILE'' '''',
     FlagString ''tls-client-cert-file'' ''REDIS_EXPORTER_TLS_CLIENT_CERT_FILE'' '''',
     FlagString ''tls-ca-cert-file'' ''REDIS_EXPORTER_TLS_CA_CERT_FILE'' '''',
     FlagString ''tls-server-key-file'' ''REDIS_EXPORTER_TLS_SERVER_KEY_FILE'' '''',
     FlagString ''tls-server-cert-file'' ''REDIS_EXPORTER_TLS_SERVER_CERT_FILE'' '''',
     FlagString ''tls-server-ca-cert-file'' ''REDIS_EXPORTER_TLS_SERVER_CA_CERT_FILE'' '''',
     FlagString ''tls-server-min-version'' ''REDIS_EXPORTER_TLS_SERVER_MIN_VERSION'' ''TLS1.2'',
     FlagInt64 ''max-distinct-key-groups'' ''REDIS_EXPORTER_MAX_DISTINCT_KEY_GROUPS'' 100,
     FlagBool ''debug'' ''REDIS_EXPORTER_DEBUG'' False,
     FlagBool ''set-client-name'' ''REDIS_EXPORTER_SET_CLIENT_NAME'' True,
     FlagBool ''is-tile38'' ''REDIS_EXPORTER_IS_TILE38'' False,
     FlagBool ''is-cluster'' ''REDIS_EXPORTER_IS_CLUSTER'' False,
     FlagBool ''export-client-list'' ''REDIS_EXPORTER_EXPORT_CLIENT_LIST'' False,
     FlagBool ''export-client-port'' ''REDIS_EXPORTER_EXPORT_CLIENT_PORT'' False,
     FlagBoolLit ''version'' False,
     FlagBool ''redis-only-metrics'' ''REDIS_EXPORTER_REDIS_ONLY_METRICS'' False,
     FlagBool ''ping-on-connect'' ''REDIS_EXPORTER_PING_ON_CONNECT'' False,
     FlagBool ''include-config-metrics'' ''REDIS_EXPORTER_INCL_CONFIG_METRICS'' False,
     FlagBool ''include-modules-metrics'' ''REDIS_EXPORTER_INCL_MODULES_METRICS'' False,
     FlagBool ''disable-exporting-key-values'' ''REDIS_EXPORTER_DISABLE_EXPORTING_KEY_VALUES'' False,
     FlagBool ''exclude-latency-histogram-metrics'' ''REDIS_EXPORTER_EXCLUDE_LATENCY_HISTOGRAM_METRICS'' False,
     FlagBool ''redact-config-metrics'' ''REDIS_EXPORTER_REDACT_CONFIG_METRICS'' True,
     FlagBool ''include-system-metrics'' ''REDIS_EXPORTER_INCL_SYSTEM_METRICS'' False,
     FlagBool ''skip-tls-verification'' ''REDIS_EXPORTER_SKIP_TLS_VERIFICATION'' False,
     FlagBool ''skip-checkkeys-for-role-master'' ''REDIS_EXPORTER_SKIP_CHECKKEYS_FOR_ROLE_MASTER'' False,
     FlagString ''basic-auth-username'' ''REDIS_EXPORTER_BASIC_AUTH_USERNAME'' '''',
     FlagString ''basic-auth-password'' ''REDIS_EXPORTER_BASIC_AUTH_PASSWORD'' '''',
     FlagBool ''include-metrics-for-empty-databases'' ''REDIS_EXPORTER_INCL_METRICS_FOR_EMPTY_DATABASES'' True]"

fun flag_name :: "flag_decl \<Rightarrow> string" where
  "flag_name (FlagString n k d) = n"
| "flag_name (FlagBool n k d) = n"
| "flag_name (FlagInt64 n k d) = n"
| "flag_name (FlagBoolLit n d) = n"

text \<open>The value a flag is registered with: its default, computed before \<^verbatim>\<open>flag.Parse\<close>.\<close>

fun flag_default :: "environ \<Rightarrow> flag_decl \<Rightarrow> flag_value" where
  "flag_default env (FlagString n k d) = StringValue (getEnv env k d)"
| "flag_default env (FlagBool n k d) = BoolValue (getEnvBool env k d)"
| "flag_default env (FlagInt64 n k d) = Int64Value (getEnvInt64 env k d)"
| "flag_default env (FlagBoolLit n d) = BoolValue d"

type_synonym flagset = "string \<rightharpoonup> flag_value"

definition formal :: "environ \<Rightarrow> flagset" where
  "formal env = map_of (map (\<lambda>d. (flag_name d, flag_default env d)) declarations)"

text \<open>
  \<^verbatim>\<open>Value.Set\<close> of the flag package: a string flag takes the text as it is, a boolean
  flag parses it with \<^verbatim>\<open>strconv.ParseBool\<close>, a 64-bit integer flag with
  \<^verbatim>\<open>strconv.ParseInt(s, 0, 64)\<close>.
\<close>

fun flag_Set :: "flag_value \<Rightarrow> string \<Rightarrow> num_error + flag_value" where
  "flag_Set (StringValue old) s = Inr (StringValue s)"
| "flag_Set (BoolValue old) s =
     (case ParseBool s of Inl e \<Rightarrow> Inl e | Inr b \<Rightarrow> Inr (BoolValue b))"
| "flag_Set (Int64Value old) s =
     (case ParseInt s 0 of Inl e \<Rightarrow> Inl e | Inr i \<Rightarrow> Inr (Int64Value i))"

text \<open>
  How the process ends: \<open>Return\<close> is \<^verbatim>\<open>main\<close> returning (status 0), \<open>OsExit n\<close> a call
  of \<^verbatim>\<open>os.Exit(n)\<close>. The flag package exits with status 2 on a bad command line and with
  status 0 after printing its help; \<^verbatim>\<open>log.Fatal\<close> exits with status 1.
\<close>

datatype exit = Return | OsExit int

text \<open>
  The command line is the sequence of flag settings it makes, in order: \<open>(name, text)\<close>
  for \<^verbatim>\<open>-name=text\<close> or \<^verbatim>\<open>-name text\<close>, with the text \<^verbatim>\<open>true\<close> for a boolean flag given
  bare, which is what the flag package passes to \<^verbatim>\<open>Set\<close> then. \<^verbatim>\<open>flag.Parse\<close> applies
  them from left to right and stops the process at the first setting it rejects.
\<close>

type_synonym args = "(string \<times> string) list"

fun flag_Parse :: "flagset \<Rightarrow> args \<Rightarrow> exit + flagset" where
  "flag_Parse fs [] = Inr fs"
| "flag_Parse fs ((name, raw) # rest) =
     (case fs name of
        None \<Rightarrow> (if name = ''help'' \<or> name = ''h'' then Inl (OsExit 0) else Inl (OsExit 2))
      | Some cur \<Rightarrow>
          (case flag_Set cur raw of
             Inl e \<Rightarrow> Inl (OsExit 2)
           | Inr new \<Rightarrow> flag_Parse (fs(name \<mapsto> new)) rest))"

text \<open>
  Reading a flag after \<^verbatim>\<open>flag.Parse\<close> (the dereference \<^verbatim>\<open>*redisAddr\<close>). A declared
  flag always holds a value of its own kind, so the last case of each reader never arises
  for the names \<^verbatim>\<open>main\<close> reads.
\<close>

definition str_flag :: "flagset \<Rightarrow> string \<Rightarrow> string" where
  "str_flag fs n = (case fs n of Some (StringValue s) \<Rightarrow> s | _ \<Rightarrow> [])"

definition bool_flag :: "flagset \<Rightarrow> string \<Rightarrow> bool" where
  "bool_flag fs n = (case fs n of Some (BoolValue b) \<Rightarrow> b | _ \<Rightarrow> False)"

definition int64_flag :: "flagset \<Rightarrow> string \<Rightarrow> int" where
  "int64_flag fs n = (case fs n of Some (Int64Value i) \<Rightarrow> i | _ \<Rightarrow> 0)"

text \<open>
  The text the command line gives a flag, if any: the last setting of that name.
\<close>

definition supplied :: "args \<Rightarrow> string \<Rightarrow> string option" where
  "supplied as n = map_of (rev as) n"

section \<open>Effects, errors and the collaborators of \<^verbatim>\<open>main\<close>\<close>

text \<open>
  A Go error is the sentinel \<^verbatim>\<open>http.ErrServerClosed\<close>, some other error, or an error
  that wraps another one; \<^verbatim>\<open>errors.Is\<close> walks the chain of wrapped errors.
\<close>

datatype go_error = ErrServerClosed | Error string | Wrap string go_error

fun errors_Is :: "go_error \<Rightarrow> go_error \<Rightarrow> bool" where
  "errors_Is (Wrap m inner) target = (Wrap m inner = target \<or> errors_Is inner target)"
| "errors_Is err target = (err = target)"

datatype signal = SIGINT | SIGTERM

datatype formatter = JSONFormatter | TextFormatter

datatype level = InfoLevel | DebugLevel

datatype log_call = Printf | Debugln | Debugf | Infof | Fatal | Fatalf

datatype arg = S string | E go_error | Sig signal

datatype collector = ProcessCollector | GoCollector

datatype tls_config = TlsConfig string

text \<open>
  The \<^verbatim>\<open>exporter.Options\<close> literal of \<^verbatim>\<open>main\<close>: \<open>Settings\<close> holds the fields that copy
  a flag, by field name; the other fields are the values \<^verbatim>\<open>main\<close> computes. The exporter
  that \<^verbatim>\<open>NewRedisExporter\<close> returns keeps the address and the options; the HTTP server
  is the literal \<^verbatim>\<open>&http.Server{Addr, Handler}\<close>, its \<open>TLSConfig\<close> unset.
\<close>

record options =
  Settings :: "(string \<times> flag_value) list"
  PasswordMap :: "(string \<times> string) list"
  LuaScript :: "(string \<times> string) list"
  ConnectionTimeouts :: int
  Registry :: "collector list"
  BuildInfo :: "string \<times> string \<times> string"

record exporter =
  redisAddr :: string
  opts :: options

record server =
  Addr :: string
  Handler :: exporter
  TLSConfig :: "tls_config option"

text \<open>
  Everything \<^verbatim>\<open>main\<close> does to the outside, in program order: calls of the logger, of
  the exporter package, of the file system and of the HTTP server, and the \<^verbatim>\<open>go\<close>
  statement that starts the background worker. A deadline is in nanoseconds.
\<close>

datatype event =
    SetFormatter formatter
  | SetOutput_Stdout
  | SetLevel level
  | Log log_call string "arg list"
  | Call_LoadPwdFile string
  | Call_ReadFile string
  | Call_MustRegister "collector list"
  | Call_NewRedisExporter string options
  | Call_CreateClientTLSConfig
  | Go_worker
  | Call_CreateServerTLSConfig string string string string
  | Call_ListenAndServe server
  | Call_ListenAndServeTLS server
  | Call_Notify "signal list"
  | Receive signal
  | Call_Shutdown int
  | Call_cancel

text \<open>
  What \<^verbatim>\<open>main.go\<close> calls and does not define: the functions of the exporter package
  (\<^verbatim>\<open>LoadPwdFile\<close>, \<^verbatim>\<open>NewRedisExporter\<close>, \<^verbatim>\<open>CreateClientTLSConfig\<close>,
  \<^verbatim>\<open>CreateServerTLSConfig\<close>), \<^verbatim>\<open>os.ReadFile\<close>, the constants of the Go runtime, and
  \<^verbatim>\<open>time.ParseDuration\<close>, which computes fractions in floating point. They are parameters
  of the model: a \<open>world\<close> fixes what each of them returns. A duration is in nanoseconds.
\<close>

record world =
  ParseDuration :: "string \<Rightarrow> go_error + int"
  LoadPwdFile :: "string \<Rightarrow> go_error + (string \<times> string) list"
  ReadFile :: "string \<Rightarrow> go_error + string"
  NewRedisExporter :: "string \<Rightarrow> options \<Rightarrow> go_error option"
  CreateClientTLSConfig :: "exporter \<Rightarrow> go_error option"
  CreateServerTLSConfig :: "exporter \<Rightarrow> string \<Rightarrow> string \<Rightarrow> string \<Rightarrow> string \<Rightarrow> go_error + tls_config"
  runtime_Version :: string
  GOOS :: string
  GOARCH :: string

text \<open>
  A piece of \<^verbatim>\<open>main\<close> yields the events it causes and either the way the process ends
  there or its value. \<open>seq\<close> runs two pieces one after the other: nothing runs after the
  process has ended.
\<close>

type_synonym 'a step = "event list \<times> (exit + 'a)"

definition ret :: "'a \<Rightarrow> 'a step" where
  "ret a = ([], Inr a)"

definition emit :: "event \<Rightarrow> unit step" where
  "emit e = ([e], Inr ())"

definition fatal :: "log_call \<Rightarrow> string \<Rightarrow> arg list \<Rightarrow> 'a step" where
  "fatal call fmt as = ([Log call fmt as], Inl (OsExit 1))"

definition seq :: "'a step \<Rightarrow> ('a \<Rightarrow> 'b step) \<Rightarrow> 'b step" where
  "seq m f =
     (case m of
        (es, Inl x) \<Rightarrow> (es, Inl x)
      | (es, Inr a) \<Rightarrow> (case f a of (es', r) \<Rightarrow> (es @ es', r)))"

section \<open>\<^verbatim>\<open>main\<close>, statement by statement\<close>

definition BuildVersion :: string where
  "BuildVersion = ''<<< filled in by build >>>''"

definition BuildDate :: string where
  "BuildDate = ''<<< filled in by build >>>''"

definition BuildCommitSha :: string where
  "BuildCommitSha = ''<<< filled in by build >>>''"

definition parse_flags :: "environ \<Rightarrow> args \<Rightarrow> flagset step" where
  "parse_flags env as =
     (case flag_Parse (formal env) as of Inl x \<Rightarrow> ([], Inl x) | Inr fs \<Rightarrow> ret fs)"

definition setup_logging :: "world \<Rightarrow> flagset \<Rightarrow> unit step" where
  "setup_logging w fs =
     seq (emit (SetFormatter (if str_flag fs ''log-format'' = ''json'' then JSONFormatter
                              else TextFormatter))) (\<lambda>_.
     seq (if bool_flag fs ''version'' then emit SetOutput_Stdout else ret ()) (\<lambda>_.
     seq (emit (Log Printf
            ''Redis Metrics Exporter %s    build date: %s    sha1: %s    Go: %s    GOOS: %s    GOARCH: %s''
            [S BuildVersion, S BuildDate, S BuildCommitSha,
             S (runtime_Version w), S (GOOS w), S (GOARCH w)])) (\<lambda>_.
     if bool_flag fs ''version'' then ([], Inl Return)
     else if bool_flag fs ''debug''
     then seq (emit (SetLevel DebugLevel)) (\<lambda>_. emit (Log Debugln ''Enabling debug output'' []))
     else emit (SetLevel InfoLevel))))"

definition connection_timeout :: "world \<Rightarrow> flagset \<Rightarrow> go_error + int" where
  "connection_timeout w fs = ParseDuration w (str_flag fs ''connection-timeout'')"

definition parse_timeout :: "world \<Rightarrow> flagset \<Rightarrow> int step" where
  "parse_timeout w fs =
     (case connection_timeout w fs of
        Inl err \<Rightarrow> fatal Fatalf ''Couldn't parse connection timeout duration, err: %s'' [E err]
      | Inr to \<Rightarrow> ret to)"

definition load_passwords :: "world \<Rightarrow> flagset \<Rightarrow> ((string \<times> string) list) step" where
  "load_passwords w fs =
     (if str_flag fs ''redis.password'' = [] \<and> str_flag fs ''redis.password-file'' \<noteq> []
      then seq (emit (Call_LoadPwdFile (str_flag fs ''redis.password-file''))) (\<lambda>_.
           case LoadPwdFile w (str_flag fs ''redis.password-file'') of
             Inl err \<Rightarrow> fatal Fatalf ''Error loading redis passwords from file %s, err: %s''
                          [S (str_flag fs ''redis.password-file''), E err]
           | Inr passwordMap \<Rightarrow> ret passwordMap)
      else ret [])"

text \<open>\<^verbatim>\<open>strings.Split(s, ",")\<close>: the pieces between the separators, at least one.\<close>

fun Split :: "string \<Rightarrow> char \<Rightarrow> string list" where
  "Split [] sep = [[]]"
| "Split (c # cs) sep =
     (if c = sep then [] # Split cs sep
      else (case Split cs sep of [] \<Rightarrow> [[c]] | p # ps \<Rightarrow> (c # p) # ps))"

fun read_scripts :: "world \<Rightarrow> string list \<Rightarrow> (string \<times> string) list \<Rightarrow> ((string \<times> string) list) step" where
  "read_scripts w [] ls = ret ls"
| "read_scripts w (script # rest) ls =
     seq (emit (Call_ReadFile script)) (\<lambda>_.
     case ReadFile w script of
       Inl err \<Rightarrow> fatal Fatalf ''Error loading script file %s    err: %s'' [S script, E err]
     | Inr bytes \<Rightarrow> read_scripts w rest (AList.update script bytes ls))"

definition load_scripts :: "world \<Rightarrow> flagset \<Rightarrow> ((string \<times> string) list) step" where
  "load_scripts w fs =
     (if str_flag fs ''script'' \<noteq> []
      then read_scripts w (Split (str_flag fs ''script'') (CHR '','')) []
      else ret [])"

definition new_registry :: "flagset \<Rightarrow> (collector list) step" where
  "new_registry fs =
     (if \<not> bool_flag fs ''redis-only-metrics''
      then seq (emit (Call_MustRegister [ProcessCollector, GoCollector])) (\<lambda>_.
           ret [ProcessCollector, GoCollector])
      else ret [])"

definition settings :: "flagset \<Rightarrow> (string \<times> flag_value) list" where
  "settings fs =
    [(''User'', StringValue (str_flag fs ''redis.user'')),
     (''Password'', StringValue (str_flag fs ''redis.password'')),
     (''Namespace'', StringValue (str_flag fs ''namespace'')),
     (''ConfigCommandName'', StringValue (str_flag fs ''config-command'')),
     (''CheckKeys'', StringValue (str_flag fs ''check-keys'')),
     (''CheckSingleKeys'', StringValue (str_flag fs ''check-single-keys'')),
     (''CheckKeysBatchSize'', Int64Value (int64_flag fs ''check-keys-batch-size'')),
     (''CheckKeyGroups'', StringValue (str_flag fs ''check-key-groups'')),
     (''MaxDistinctKeyGroups'', Int64Value (int64_flag fs ''max-distinct-key-groups'')),
     (''CheckStreams'', StringValue (str_flag fs ''check-streams'')),
     (''CheckSingleStreams'', StringValue (str_flag fs ''check-single-streams'')),
     (''StreamsExcludeConsumerMetrics'', BoolValue (bool_flag fs ''streams-exclude-consumer-metrics'')),
     (''CountKeys'', StringValue (str_flag fs ''count-keys'')),
     (''InclSystemMetrics'', BoolValue (bool_flag fs ''include-system-metrics'')),
     (''InclConfigMetrics'', BoolValue (bool_flag fs ''include-config-metrics'')),
     (''DisableExportingKeyValues'', BoolValue (bool_flag fs ''disable-exporting-key-values'')),
     (''ExcludeLatencyHistogramMetrics'', BoolValue (bool_flag fs ''exclude-latency-histogram-metrics'')),
     (''RedactConfigMetrics'', BoolValue (bool_flag fs ''redact-config-metrics'')),
     (''SetClientName'', BoolValue (bool_flag fs ''set-client-name'')),
     (''IsTile38'', BoolValue (bool_flag fs ''is-tile38'')),
     (''IsCluster'', BoolValue (bool_flag fs ''is-cluster'')),
     (''InclModulesMetrics'', BoolValue (bool_flag fs ''include-modules-metrics'')),
     (''ExportClientList'', BoolValue (bool_flag fs ''export-client-list'')),
     (''ExportClientsInclPort'', BoolValue (bool_flag fs ''export-client-port'')),
     (''SkipCheckKeysForRoleMaster'', BoolValue (bool_flag fs ''skip-checkkeys-for-role-master'')),
     (''SkipTLSVerification'', BoolValue (bool_flag fs ''skip-tls-verification'')),
     (''ClientCertFile'', StringValue (str_flag fs ''tls-client-cert-file'')),
     (''ClientKeyFile'', StringValue (str_flag fs ''tls-client-key-file'')),
     (''CaCertFile'', StringValue (str_flag fs ''tls-ca-cert-file'')),
     (''MetricsPath'', StringValue (str_flag fs ''web.telemetry-path'')),
     (''RedisMetricsOnly'', BoolValue (bool_flag fs ''redis-only-metrics'')),
     (''PingOnConnect'', BoolValue (bool_flag fs ''ping-on-connect'')),
     (''RedisPwdFile'', StringValue (str_flag fs ''redis.password-file'')),
     (''BasicAuthUsername'', StringValue (str_flag fs ''basic-auth-username'')),
     (''BasicAuthPassword'', StringValue (str_flag fs ''basic-auth-password'')),
     (''InclMetricsForEmptyDatabases'', BoolValue (bool_flag fs ''include-metrics-for-empty-databases''))]"

definition new_exporter ::
  "world \<Rightarrow> flagset \<Rightarrow> (string \<times> string) list \<Rightarrow> (string \<times> string) list \<Rightarrow> int \<Rightarrow> collector list \<Rightarrow> exporter step" where
  "new_exporter w fs passwordMap ls to registry =
     (let options = \<lparr>Settings = settings fs, PasswordMap = passwordMap, LuaScript = ls,
                      ConnectionTimeouts = to, Registry = registry,
                      BuildInfo = (BuildVersion, BuildCommitSha, BuildDate)\<rparr>
      in seq (emit (Call_NewRedisExporter (str_flag fs ''redis.addr'') options)) (\<lambda>_.
         case NewRedisExporter w (str_flag fs ''redis.addr'') options of
           Some err \<Rightarrow> fatal Fatal [] [E err]
         | None \<Rightarrow> ret \<lparr>redisAddr = str_flag fs ''redis.addr'', opts = options\<rparr>))"

definition verify_client_tls :: "world \<Rightarrow> flagset \<Rightarrow> exporter \<Rightarrow> unit step" where
  "verify_client_tls w fs exp =
     (if (str_flag fs ''tls-client-cert-file'' \<noteq> []) \<noteq> (str_flag fs ''tls-client-key-file'' \<noteq> [])
      then fatal Fatal ''TLS client key file and cert file should both be present'' []
      else seq (emit Call_CreateClientTLSConfig) (\<lambda>_.
           case CreateClientTLSConfig w exp of
             Some err \<Rightarrow> fatal Fatal [] [E err]
           | None \<Rightarrow> ret ()))"

definition new_server :: "flagset \<Rightarrow> exporter \<Rightarrow> server step" where
  "new_server fs exp =
     seq (emit (Log Infof ''Providing metrics at %s%s''
            [S (str_flag fs ''web.listen-address''), S (str_flag fs ''web.telemetry-path'')])) (\<lambda>_.
     seq (emit (Log Debugf ''Configured redis addr: %#v'' [S (str_flag fs ''redis.addr'')])) (\<lambda>_.
     ret \<lparr>Addr = str_flag fs ''web.listen-address'', Handler = exp, TLSConfig = None\<rparr>))"

text \<open>
  \<^verbatim>\<open>main\<close> up to and including the \<^verbatim>\<open>go\<close> statement: \<^verbatim>\<open>flag.Parse\<close>, then
  \<open>startup\<close>, the statements that follow it. It ends the process, or it has started the
  worker and goes on to wait for a signal; then its value is the flag set and the server
  the worker was given.
\<close>

definition startup :: "world \<Rightarrow> flagset \<Rightarrow> (flagset \<times> server) step" where
  "startup w fs =
     seq (setup_logging w fs) (\<lambda>_.
     seq (parse_timeout w fs) (\<lambda>to.
     seq (load_passwords w fs) (\<lambda>passwordMap.
     seq (load_scripts w fs) (\<lambda>ls.
     seq (new_registry fs) (\<lambda>registry.
     seq (new_exporter w fs passwordMap ls to registry) (\<lambda>exp.
     seq (verify_client_tls w fs exp) (\<lambda>_.
     seq (new_server fs exp) (\<lambda>server.
     seq (emit Go_worker) (\<lambda>_.
     ret (fs, server))))))))))"

definition main :: "world \<Rightarrow> environ \<Rightarrow> args \<Rightarrow> (flagset \<times> server) step" where
  "main w env as = seq (parse_flags env as) (startup w)"

section \<open>The background worker\<close>

text \<open>
  The body of the \<^verbatim>\<open>go func()\<close> up to its call of the listener, which blocks while
  the server runs: the value is the way the listener was called and the server it was
  called on. \<open>serve_returns\<close> is what the worker does once that call returns \<open>err\<close>.
\<close>

datatype transport = Plaintext | TLS

definition worker :: "world \<Rightarrow> flagset \<Rightarrow> server \<Rightarrow> (transport \<times> server) step" where
  "worker w fs server =
     (if str_flag fs ''tls-server-cert-file'' \<noteq> [] \<and> str_flag fs ''tls-server-key-file'' \<noteq> []
      then seq (emit (Log Debugf ''Bind as TLS using cert %s and key %s''
                  [S (str_flag fs ''tls-server-cert-file''), S (str_flag fs ''tls-server-key-file'')])) (\<lambda>_.
           seq (emit (Call_CreateServerTLSConfig (str_flag fs ''tls-server-cert-file'')
                  (str_flag fs ''tls-server-key-file'') (str_flag fs ''tls-server-ca-cert-file'')
                  (str_flag fs ''tls-server-min-version''))) (\<lambda>_.
           case CreateServerTLSConfig w (Handler server) (str_flag fs ''tls-server-cert-file'')
                  (str_flag fs ''tls-server-key-file'') (str_flag fs ''tls-server-ca-cert-file'')
                  (str_flag fs ''tls-server-min-version'') of
             Inl err \<Rightarrow> fatal Fatal [] [E err]
           | Inr tlsConfig \<Rightarrow>
               seq (emit (Call_ListenAndServeTLS (server\<lparr>TLSConfig := Some tlsConfig\<rparr>))) (\<lambda>_.
               ret (TLS, server\<lparr>TLSConfig := Some tlsConfig\<rparr>))))
      else seq (emit (Call_ListenAndServe server)) (\<lambda>_. ret (Plaintext, server)))"

definition serve_returns :: "transport \<Rightarrow> go_error option \<Rightarrow> unit step" where
  "serve_returns t err =
     (case err of
        None \<Rightarrow> ret ()
      | Some e \<Rightarrow>
          if \<not> errors_Is e ErrServerClosed
          then fatal Fatalf (case t of TLS \<Rightarrow> ''TLS Server error: %v'' | Plaintext \<Rightarrow> ''Server error: %v'') [E e]
          else ret ())"

text \<open>
  The process in program order from its start to the worker's call of the listener: the
  worker runs only after the \<^verbatim>\<open>go\<close> statement that starts it.
\<close>

definition boot :: "world \<Rightarrow> environ \<Rightarrow> args \<Rightarrow> (transport \<times> server) step" where
  "boot w env as = seq (main w env as) (\<lambda>(fs, server). worker w fs server)"

text \<open>\<open>before a b es\<close>: the event \<open>a\<close> occurs in \<open>es\<close> ahead of every occurrence of \<open>b\<close>.\<close>

definition before :: "event \<Rightarrow> event \<Rightarrow> event list \<Rightarrow> bool" where
  "before a b es = (a \<in> set (takeWhile (\<lambda>e. e \<noteq> b) es))"

section \<open>Waiting for a signal and shutting down\<close>

text \<open>
  After the \<^verbatim>\<open>go\<close> statement the main thread registers the channel \<^verbatim>\<open>quit\<close>, of
  capacity 1, for \<^verbatim>\<open>SIGINT\<close> and \<^verbatim>\<open>SIGTERM\<close> and blocks receiving from it. It then calls
  \<^verbatim>\<open>server.Shutdown\<close> under a context that expires after ten seconds, and blocks until
  that call returns. The thread is a state machine driven by what reaches it: a signal
  delivered to the process, or the return of \<^verbatim>\<open>Shutdown\<close>. The signal package sends
  without blocking: a signal that finds the channel full is dropped.
\<close>

definition Second :: int where
  "Second = 1000000000"

datatype main_pc = Waiting | ShuttingDown | Ended exit

record main_thread =
  quit :: "signal list"
  pc :: main_pc
  trace :: "event list"

datatype input = Delivered signal | ShutdownReturned "go_error option"

definition wait_for_signal :: main_thread where
  "wait_for_signal = \<lparr>quit = [], pc = Waiting, trace = [Call_Notify [SIGINT, SIGTERM]]\<rparr>"

definition send :: "signal list \<Rightarrow> signal \<Rightarrow> signal list" where
  "send q s = (if length q < 1 then q @ [s] else q)"

fun main_step :: "main_thread \<Rightarrow> input \<Rightarrow> main_thread" where
  "main_step m (Delivered s) =
     (case pc m of
        Waiting \<Rightarrow>
          (case send (quit m) s of
             [] \<Rightarrow> m
           | x # q \<Rightarrow>
               m\<lparr>quit := q, pc := ShuttingDown,
                 trace := trace m @
                   [Receive x, Log Infof ''Received %s signal, exiting'' [Sig x],
                    Call_Shutdown (10 * Second)]\<rparr>)
      | ShuttingDown \<Rightarrow> m\<lparr>quit := send (quit m) s\<rparr>
      | Ended x \<Rightarrow> m)"
| "main_step m (ShutdownReturned err) =
     (case pc m of
        ShuttingDown \<Rightarrow>
          (case err of
             Some e \<Rightarrow>
               m\<lparr>pc := Ended (OsExit 1),
                 trace := trace m @ [Log Fatalf ''Server shutdown failed: %v'' [E e]]\<rparr>
           | None \<Rightarrow>
               m\<lparr>pc := Ended Return,
                 trace := trace m @ [Log Infof ''Server shut down gracefully'' [], Call_cancel]\<rparr>)
      | Waiting \<Rightarrow> m
      | Ended x \<Rightarrow> m)"

definition run_main :: "input list \<Rightarrow> main_thread" where
  "run_main ins = foldl main_step wait_for_signal ins"

fun is_shutdown :: "event \<Rightarrow> bool" where
  "is_shutdown (Call_Shutdown d) = True"
| "is_shutdown e = False"

definition shutdown_attempts :: "event list \<Rightarrow> nat" where
  "shutdown_attempts es = length (filter is_shutdown es)"

section \<open>Vocabulary of the properties\<close>

datatype kind = KString | KBool | KInt64

fun kind_of :: "flag_value \<Rightarrow> kind" where
  "kind_of (StringValue s) = KString"
| "kind_of (BoolValue b) = KBool"
| "kind_of (Int64Value i) = KInt64"

text \<open>
  The order of precedence as the specification words it: the value of the command line
  if there is one, otherwise the value of the environment if there is one, otherwise the
  default. \<open>parsed\<close> is the value of a successful parse.
\<close>

definition precedence :: "'a option \<Rightarrow> 'a option \<Rightarrow> 'a \<Rightarrow> 'a" where
  "precedence fromArgs fromEnv dflt =
     (case fromArgs of
        Some a \<Rightarrow> a
      | None \<Rightarrow> (case fromEnv of Some e \<Rightarrow> e | None \<Rightarrow> dflt))"

definition parsed :: "'e + 'a \<Rightarrow> 'a option" where
  "parsed r = (case r of Inr v \<Rightarrow> Some v | Inl e \<Rightarrow> None)"

text \<open>The environment variable a declaration reads, if it reads one.\<close>

fun env_key :: "flag_decl \<Rightarrow> string option" where
  "env_key (FlagString n k d) = Some k"
| "env_key (FlagBool n k d) = Some k"
| "env_key (FlagInt64 n k d) = Some k"
| "env_key (FlagBoolLit n d) = None"

text \<open>Kinds of events the properties speak of.\<close>

fun serves :: "event \<Rightarrow> bool" where
  "serves Go_worker = True"
| "serves (Call_ListenAndServe srv) = True"
| "serves (Call_ListenAndServeTLS srv) = True"
| "serves e = False"

fun loads_credentials :: "event \<Rightarrow> bool" where
  "loads_credentials (Call_LoadPwdFile p) = True"
| "loads_credentials (Call_ReadFile p) = True"
| "loads_credentials e = False"

fun loads_passwords :: "event \<Rightarrow> bool" where
  "loads_passwords (Call_LoadPwdFile p) = True"
| "loads_passwords e = False"

fun builds_client_tls :: "event \<Rightarrow> bool" where
  "builds_client_tls Call_CreateClientTLSConfig = True"
| "builds_client_tls e = False"

fun builds_server_tls :: "event \<Rightarrow> bool" where
  "builds_server_tls (Call_CreateServerTLSConfig cert key ca minVersion) = True"
| "builds_server_tls e = False"

fun is_log :: "event \<Rightarrow> bool" where
  "is_log (Log call fmt as) = True"
| "is_log e = False"

fun is_fatal_log :: "event \<Rightarrow> bool" where
  "is_fatal_log (Log Fatal fmt as) = True"
| "is_fatal_log (Log Fatalf fmt as) = True"
| "is_fatal_log e = False"

section \<open>Example inputs\<close>

text \<open>
  A world in which the collaborators succeed on a few known inputs, an environment and
  a command line, used to run the definitions on concrete inputs.
\<close>

definition example_world :: world where
  "example_world =
     \<lparr>ParseDuration = (\<lambda>s. if s = ''15s'' then Inr (15 * Second)
                            else if s = ''2s'' then Inr (2 * Second)
                            else Inl (Error ''time: invalid duration'')),
      LoadPwdFile = (\<lambda>p. if p = ''/etc/pw.json'' then Inr [(''redis://a:6379'', ''secret'')]
                          else Inl (Error ''open: no such file or directory'')),
      ReadFile = (\<lambda>p. if p = ''a.lua'' then Inr ''return 1''
                       else Inl (Error ''open: no such file or directory'')),
      NewRedisExporter = (\<lambda>addr options. None),
      CreateClientTLSConfig = (\<lambda>exp. None),
      CreateServerTLSConfig = (\<lambda>exp cert key ca minVersion.
         if minVersion = ''TLS1.2'' then Inr (TlsConfig (cert @ '' '' @ key))
         else Inl (Error ''unsupported TLS version'')),
      runtime_Version = ''go1.21'', GOOS = ''linux'', GOARCH = ''amd64''\<rparr>"

definition example_env :: environ where
  "example_env =
     [''REDIS_ADDR'' \<mapsto> ''redis://env:6379'',
      ''REDIS_EXPORTER_NAMESPACE'' \<mapsto> ''fromenv'',
      ''REDIS_EXPORTER_DEBUG'' \<mapsto> ''yes'',
      ''REDIS_EXPORTER_IS_CLUSTER'' \<mapsto> ''true'',
      ''REDIS_EXPORTER_SET_CLIENT_NAME'' \<mapsto> ''0'',
      ''REDIS_EXPORTER_CHECK_KEYS_BATCH_SIZE'' \<mapsto> ''1e3'',
      ''REDIS_EXPORTER_MAX_DISTINCT_KEY_GROUPS'' \<mapsto> ''7'']"

definition tls_args :: args where
  "tls_args = [(''tls-server-cert-file'', ''c.pem''), (''tls-server-key-file'', ''k.pem'')]"

definition client_cert_only_args :: args where
  "client_cert_only_args = [(''tls-client-cert-file'', ''client.pem'')]"

definition server_cert_only_args :: args where
  "server_cert_only_args = [(''tls-server-cert-file'', ''c.pem'')]"

definition bad_timeout_args :: args where
  "bad_timeout_args = [(''connection-timeout'', ''soon'')]"

definition missing_pwd_file_env :: environ where
  "missing_pwd_file_env = [''REDIS_PASSWORD_FILE'' \<mapsto> ''/missing.json'']"

definition bad_timeout_env :: environ where
  "bad_timeout_env = [''REDIS_EXPORTER_CONNECTION_TIMEOUT'' \<mapsto> ''15'']"

definition inline_password_env :: environ where
  "inline_password_env =
     [''REDIS_PASSWORD'' \<mapsto> ''secret'', ''REDIS_PASSWORD_FILE'' \<mapsto> ''/etc/pw.json'']"

definition example_server :: server where
  "example_server =
     \<lparr>Addr = '':9121'',
      Handler = \<lparr>redisAddr = ''redis://localhost:6379'',
                 opts = \<lparr>Settings = [], PasswordMap = [], LuaScript = [],
                          ConnectionTimeouts = 15 * Second, Registry = [],
                          BuildInfo = (BuildVersion, BuildCommitSha, BuildDate)\<rparr>\<rparr>,
      TLSConfig = None\<rparr>"

definition tls_flags :: flagset where
  "tls_flags =
     (formal Map.empty)
       (''tls-server-cert-file'' \<mapsto> StringValue ''c.pem'',
        ''tls-server-key-file'' \<mapsto> StringValue ''k.pem'')"

definition old_tls_flags :: flagset where
  "old_tls_flags = tls_flags(''tls-server-min-version'' \<mapsto> StringValue ''SSLv3'')"

definition example_args :: args where
  "example_args =
     [(''redis.addr'', ''redis://first:6379''),
      (''is-tile38'', ''true''),
      (''set-client-name'', ''T''),
      (''max-distinct-key-groups'', ''0x10''),
      (''redis.addr'', ''redis://cli:6379'')]"

section \<open>Resolution of the options\<close>

lemma distinct_flag_names: "distinct (map flag_name declarations)"
  by (simp add: declarations_def)

lemma formal_declared:
  assumes "d \<in> set declarations"
  shows "formal env (flag_name d) = Some (flag_default env d)"
proof -
  have "distinct (map fst (map (\<lambda>d. (flag_name d, flag_default env d)) declarations))"
    using distinct_flag_names by (simp add: comp_def)
  moreover have "(flag_name d, flag_default env d) \<in> set (map (\<lambda>d. (flag_name d, flag_default env d)) declarations)"
    using assms by auto
  ultimately show ?thesis
    unfolding formal_def by (rule map_of_is_SomeI)
qed

lemma flag_Set_kind: "flag_Set cur raw = Inr new \<Longrightarrow> kind_of new = kind_of cur"
  by (cases cur) (auto split: sum.splits)

lemma flag_Set_cong: "kind_of a = kind_of b \<Longrightarrow> flag_Set a raw = flag_Set b raw"
  by (cases a; cases b) auto

lemma supplied_Nil: "supplied [] n = None"
  by (simp add: supplied_def)

lemma supplied_Cons:
  "supplied ((m, raw) # as) n =
     (case supplied as n of Some r \<Rightarrow> Some r | None \<Rightarrow> if m = n then Some raw else None)"
  by (simp add: supplied_def map_add_def split: option.splits)

lemma flag_Parse_value:
  "flag_Parse fs as = Inr fs' \<Longrightarrow> fs n = Some cur \<Longrightarrow>
     \<exists>final. fs' n = Some final \<and> kind_of final = kind_of cur \<and>
       (case supplied as n of None \<Rightarrow> final = cur | Some raw \<Rightarrow> flag_Set cur raw = Inr final)"
proof (induction as arbitrary: fs cur)
  case Nil
  then show ?case by (simp add: supplied_Nil)
next
  case (Cons a as)
  obtain m raw where a: "a = (m, raw)" by (cases a)
  from Cons.prems(1) a obtain c new where
    c: "fs m = Some c" and new: "flag_Set c raw = Inr new"
    and rest: "flag_Parse (fs(m \<mapsto> new)) as = Inr fs'"
    by (auto split: option.splits sum.splits if_splits)
  show ?case
  proof (cases "m = n")
    case True
    with c Cons.prems(2) have cc: "c = cur" by simp
    have "(fs(m \<mapsto> new)) n = Some new" using True by simp
    from Cons.IH[OF rest this] obtain final where
      f: "fs' n = Some final" "kind_of final = kind_of new"
        "(case supplied as n of None \<Rightarrow> final = new | Some r \<Rightarrow> flag_Set new r = Inr final)"
      by blast
    have k: "kind_of new = kind_of cur" using new cc flag_Set_kind by blast
    have "(case supplied (a # as) n of None \<Rightarrow> final = cur | Some r \<Rightarrow> flag_Set cur r = Inr final)"
      using f(3) True a new cc flag_Set_cong[OF k]
      by (auto simp: supplied_Cons split: option.splits)
    with f k show ?thesis by auto
  next
    case False
    then have "(fs(m \<mapsto> new)) n = Some cur" using Cons.prems(2) by simp
    from Cons.IH[OF rest this] obtain final where
      f: "fs' n = Some final" "kind_of final = kind_of cur"
        "(case supplied as n of None \<Rightarrow> final = cur | Some r \<Rightarrow> flag_Set cur r = Inr final)"
      by blast
    have "(case supplied (a # as) n of None \<Rightarrow> final = cur | Some r \<Rightarrow> flag_Set cur r = Inr final)"
      using f(3) False a by (auto simp: supplied_Cons split: option.splits)
    with f show ?thesis by auto
  qed
qed

lemma string_flag_resolved:
  assumes "flag_Parse (formal env) as = Inr fs" and "FlagString n k d \<in> set declarations"
  shows "str_flag fs n = precedence (supplied as n) (env k) d"
proof -
  have "formal env n = Some (StringValue (getEnv env k d))"
    using formal_declared[OF assms(2), of env] by simp
  from flag_Parse_value[OF assms(1) this] show ?thesis
    by (auto simp: str_flag_def precedence_def getEnv_def split: option.splits)
qed

lemma bool_flag_resolved:
  assumes "flag_Parse (formal env) as = Inr fs" and "FlagBool n k d \<in> set declarations"
  shows "bool_flag fs n =
           precedence (Option.bind (supplied as n) (\<lambda>s. parsed (ParseBool s)))
                      (Option.bind (env k) (\<lambda>s. parsed (ParseBool s))) d"
    and "supplied as n = Some raw \<Longrightarrow> ParseBool raw = Inr (bool_flag fs n)"
proof -
  have "formal env n = Some (BoolValue (getEnvBool env k d))"
    using formal_declared[OF assms(2), of env] by simp
  from flag_Parse_value[OF assms(1) this]
  show "bool_flag fs n =
           precedence (Option.bind (supplied as n) (\<lambda>s. parsed (ParseBool s)))
                      (Option.bind (env k) (\<lambda>s. parsed (ParseBool s))) d"
    and "supplied as n = Some raw \<Longrightarrow> ParseBool raw = Inr (bool_flag fs n)"
    by (cases "supplied as n"; cases "env k"; auto simp: bool_flag_def precedence_def parsed_def getEnvBool_def split: sum.splits)+
qed

lemma int64_flag_resolved:
  assumes "flag_Parse (formal env) as = Inr fs" and "FlagInt64 n k d \<in> set declarations"
  shows "int64_flag fs n =
           precedence (Option.bind (supplied as n) (\<lambda>s. parsed (ParseInt s 0)))
                      (Option.bind (env k) (\<lambda>s. parsed (ParseInt s 10))) d"
    and "supplied as n = Some raw \<Longrightarrow> ParseInt raw 0 = Inr (int64_flag fs n)"
proof -
  have "formal env n = Some (Int64Value (getEnvInt64 env k d))"
    using formal_declared[OF assms(2), of env] by simp
  from flag_Parse_value[OF assms(1) this]
  show "int64_flag fs n =
           precedence (Option.bind (supplied as n) (\<lambda>s. parsed (ParseInt s 0)))
                      (Option.bind (env k) (\<lambda>s. parsed (ParseInt s 10))) d"
    and "supplied as n = Some raw \<Longrightarrow> ParseInt raw 0 = Inr (int64_flag fs n)"
    by (cases "supplied as n"; cases "env k"; auto simp: int64_flag_def precedence_def parsed_def getEnvInt64_def split: sum.splits)+
qed

lemma boollit_flag_resolved:
  assumes "flag_Parse (formal env) as = Inr fs" and "FlagBoolLit n d \<in> set declarations"
  shows "bool_flag fs n =
           precedence (Option.bind (supplied as n) (\<lambda>s. parsed (ParseBool s))) None d"
    and "supplied as n = Some raw \<Longrightarrow> ParseBool raw = Inr (bool_flag fs n)"
proof -
  have "formal env n = Some (BoolValue d)"
    using formal_declared[OF assms(2), of env] by simp
  from flag_Parse_value[OF assms(1) this]
  show "bool_flag fs n =
           precedence (Option.bind (supplied as n) (\<lambda>s. parsed (ParseBool s))) None d"
    and "supplied as n = Some raw \<Longrightarrow> ParseBool raw = Inr (bool_flag fs n)"
    by (cases "supplied as n"; auto simp: bool_flag_def precedence_def parsed_def split: sum.splits)+
qed

lemma distinct_env_keys: "distinct (map env_key declarations)"
  by (simp add: declarations_def)

lemma same_env_key:
  assumes "d \<in> set declarations" "d' \<in> set declarations" "env_key d = env_key d'"
  shows "d = d'"
  using distinct_env_keys assms by (meson distinct_map inj_onD)

lemma flag_default_unset_bool:
  assumes "d \<in> set declarations" "FlagBool n k b \<in> set declarations" "ParseBool v = Inl e"
  shows "flag_default (env(k \<mapsto> v)) d = flag_default (env(k := None)) d"
proof (cases "env_key d = Some k")
  case True
  then have "d = FlagBool n k b" using same_env_key[OF assms(1,2)] by simp
  then show ?thesis using assms(3) by (simp add: getEnvBool_def)
next
  case False
  then show ?thesis by (cases d) (auto simp: getEnv_def getEnvBool_def getEnvInt64_def)
qed

lemma flag_default_unset_int64:
  assumes "d \<in> set declarations" "FlagInt64 n k i \<in> set declarations" "ParseInt v 10 = Inl e"
  shows "flag_default (env(k \<mapsto> v)) d = flag_default (env(k := None)) d"
proof (cases "env_key d = Some k")
  case True
  then have "d = FlagInt64 n k i" using same_env_key[OF assms(1,2)] by simp
  then show ?thesis using assms(3) by (simp add: getEnvInt64_def)
next
  case False
  then show ?thesis by (cases d) (auto simp: getEnv_def getEnvBool_def getEnvInt64_def)
qed

lemma formal_cong:
  assumes "\<And>d. d \<in> set declarations \<Longrightarrow> flag_default env1 d = flag_default env2 d"
  shows "formal env1 = formal env2"
proof -
  have eq: "map (\<lambda>d. (flag_name d, flag_default env1 d)) declarations
      = map (\<lambda>d. (flag_name d, flag_default env2 d)) declarations"
    by (rule map_cong) (simp_all add: assms)
  show ?thesis unfolding formal_def eq ..
qed

lemma main_formal_cong: "formal env1 = formal env2 \<Longrightarrow> main w env1 as = main w env2 as"
  by (simp add: main_def parse_flags_def)

text \<open>
  C1. For every declared option the value read after \<^verbatim>\<open>flag.Parse\<close> is the value the
  command line supplies if it supplies one; otherwise the value of the option's
  environment variable, if the variable is set and, for a boolean or an integer, parses;
  otherwise the declared default. This holds for the string, boolean and integer
  options, for the \<^verbatim>\<open>version\<close> flag, which has no environment variable, and for the
  connection timeout, a string option whose resolved text is what \<^verbatim>\<open>time.ParseDuration\<close>
  is given. A text supplied on the command line for a boolean or an integer is the text
  whose parse is the value: \<^verbatim>\<open>flag.Parse\<close> succeeds only if it parses.
\<close>

theorem option_precedence:
  assumes "flag_Parse (formal env) as = Inr fs"
  shows "(FlagString n k d \<in> set declarations \<longrightarrow>
            str_flag fs n = precedence (supplied as n) (env k) d)
       \<and> (FlagBool n k b \<in> set declarations \<longrightarrow>
            bool_flag fs n =
              precedence (Option.bind (supplied as n) (\<lambda>s. parsed (ParseBool s)))
                         (Option.bind (env k) (\<lambda>s. parsed (ParseBool s))) b
            \<and> (\<forall>raw. supplied as n = Some raw \<longrightarrow> ParseBool raw = Inr (bool_flag fs n)))
       \<and> (FlagInt64 n k i \<in> set declarations \<longrightarrow>
            int64_flag fs n =
              precedence (Option.bind (supplied as n) (\<lambda>s. parsed (ParseInt s 0)))
                         (Option.bind (env k) (\<lambda>s. parsed (ParseInt s 10))) i
            \<and> (\<forall>raw. supplied as n = Some raw \<longrightarrow> ParseInt raw 0 = Inr (int64_flag fs n)))
       \<and> (FlagBoolLit n b \<in> set declarations \<longrightarrow>
            bool_flag fs n =
              precedence (Option.bind (supplied as n) (\<lambda>s. parsed (ParseBool s))) None b
            \<and> (\<forall>raw. supplied as n = Some raw \<longrightarrow> ParseBool raw = Inr (bool_flag fs n)))
       \<and> connection_timeout w fs =
            ParseDuration w (precedence (supplied as ''connection-timeout'')
                               (env ''REDIS_EXPORTER_CONNECTION_TIMEOUT'') ''15s'')"
proof -
  have t: "FlagString ''connection-timeout'' ''REDIS_EXPORTER_CONNECTION_TIMEOUT'' ''15s'' \<in> set declarations"
    by (simp add: declarations_def)
  show ?thesis
    using string_flag_resolved[OF assms] bool_flag_resolved[OF assms]
      int64_flag_resolved[OF assms] boollit_flag_resolved[OF assms]
      string_flag_resolved[OF assms t]
    by (simp add: connection_timeout_def)
qed

theorem option_precedence_witness:
  "(case flag_Parse (formal example_env) example_args of
      Inl x \<Rightarrow> False
    | Inr fs \<Rightarrow>
        str_flag fs ''redis.addr'' = ''redis://cli:6379''
      \<and> str_flag fs ''namespace'' = ''fromenv''
      \<and> str_flag fs ''web.listen-address'' = '':9121''
      \<and> bool_flag fs ''is-tile38'' = True
      \<and> bool_flag fs ''set-client-name'' = True
      \<and> bool_flag fs ''is-cluster'' = True
      \<and> bool_flag fs ''debug'' = False
      \<and> bool_flag fs ''redact-config-metrics'' = True
      \<and> int64_flag fs ''max-distinct-key-groups'' = 16
      \<and> int64_flag fs ''check-keys-batch-size'' = 1000
      \<and> bool_flag fs ''version'' = False
      \<and> connection_timeout example_world fs = Inr 15000000000)"
proof -
  have "(case flag_Parse (formal example_env) example_args of Inl x \<Rightarrow> False | Inr fs \<Rightarrow> True)"
    by code_simp
  then have "\<exists>fs. flag_Parse (formal example_env) example_args = Inr fs"
    by (cases "flag_Parse (formal example_env) example_args") auto
  then obtain fs where p: "flag_Parse (formal example_env) example_args = Inr fs" ..
  have m: "FlagString ''redis.addr'' ''REDIS_ADDR'' ''redis://localhost:6379'' \<in> set declarations"
    "FlagString ''namespace'' ''REDIS_EXPORTER_NAMESPACE'' ''redis'' \<in> set declarations"
    "FlagString ''web.listen-address'' ''REDIS_EXPORTER_WEB_LISTEN_ADDRESS'' '':9121'' \<in> set declarations"
    "FlagBool ''is-tile38'' ''REDIS_EXPORTER_IS_TILE38'' False \<in> set declarations"
    "FlagBool ''set-client-name'' ''REDIS_EXPORTER_SET_CLIENT_NAME'' True \<in> set declarations"
    "FlagBool ''is-cluster'' ''REDIS_EXPORTER_IS_CLUSTER'' False \<in> set declarations"
    "FlagBool ''debug'' ''REDIS_EXPORTER_DEBUG'' False \<in> set declarations"
    "FlagBool ''redact-config-metrics'' ''REDIS_EXPORTER_REDACT_CONFIG_METRICS'' True \<in> set declarations"
    "FlagInt64 ''max-distinct-key-groups'' ''REDIS_EXPORTER_MAX_DISTINCT_KEY_GROUPS'' 100 \<in> set declarations"
    "FlagInt64 ''check-keys-batch-size'' ''REDIS_EXPORTER_CHECK_KEYS_BATCH_SIZE'' 1000 \<in> set declarations"
    "FlagBoolLit ''version'' False \<in> set declarations"
    by (simp_all add: declarations_def)
  have s: "supplied example_args ''redis.addr'' = Some ''redis://cli:6379''"
    "supplied example_args ''namespace'' = None"
    "supplied example_args ''web.listen-address'' = None"
    "supplied example_args ''is-tile38'' = Some ''true''"
    "supplied example_args ''set-client-name'' = Some ''T''"
    "supplied example_args ''is-cluster'' = None"
    "supplied example_args ''debug'' = None"
    "supplied example_args ''redact-config-metrics'' = None"
    "supplied example_args ''max-distinct-key-groups'' = Some ''0x10''"
    "supplied example_args ''check-keys-batch-size'' = None"
    "supplied example_args ''version'' = None"
    "supplied example_args ''connection-timeout'' = None"
    by (simp_all add: supplied_def example_args_def)
  have e: "ParseInt ''0x10'' 0 = Inr 16" "ParseInt ''1e3'' 10 = Inl ErrSyntax"
    "ParseBool ''yes'' = Inl ErrSyntax" "ParseBool ''true'' = Inr True" "ParseBool ''T'' = Inr True"
    "ParseBool ''0'' = Inr False"
    by (simp_all add: ParseBool_def ParseUint_def digit_val_def lower_def maxUint64_def underscoreOK_def)
  note P = option_precedence[OF p]
  note S = P[THEN conjunct1, THEN mp]
  note B = P[THEN conjunct2, THEN conjunct1, THEN mp, THEN conjunct1]
  note I = P[THEN conjunct2, THEN conjunct2, THEN conjunct1, THEN mp, THEN conjunct1]
  note L = P[THEN conjunct2, THEN conjunct2, THEN conjunct2, THEN conjunct1, THEN mp, THEN conjunct1]
  note T = P[THEN conjunct2, THEN conjunct2, THEN conjunct2, THEN conjunct2]
  have "str_flag fs ''redis.addr'' = ''redis://cli:6379''"
    using S[OF m(1)] s(1) by (simp add: precedence_def)
  moreover have "str_flag fs ''namespace'' = ''fromenv''"
    using S[OF m(2)] s(2) by (simp add: precedence_def example_env_def)
  moreover have "str_flag fs ''web.listen-address'' = '':9121''"
    using S[OF m(3)] s(3) by (simp add: precedence_def example_env_def)
  moreover have "bool_flag fs ''is-tile38'' = True"
    using B[OF m(4)] s(4) e by (simp add: precedence_def parsed_def)
  moreover have "bool_flag fs ''set-client-name'' = True"
    using B[OF m(5)] s(5) e by (simp add: precedence_def parsed_def)
  moreover have "bool_flag fs ''is-cluster'' = True"
    using B[OF m(6)] s(6) e by (simp add: precedence_def parsed_def example_env_def)
  moreover have "bool_flag fs ''debug'' = False"
    using B[OF m(7)] s(7) e by (simp add: precedence_def parsed_def example_env_def)
  moreover have "bool_flag fs ''redact-config-metrics'' = True"
    using B[OF m(8)] s(8) e by (simp add: precedence_def parsed_def example_env_def)
  moreover have "int64_flag fs ''max-distinct-key-groups'' = 16"
    using I[OF m(9)] s(9) e by (simp add: precedence_def parsed_def example_env_def)
  moreover have "int64_flag fs ''check-keys-batch-size'' = 1000"
    using I[OF m(10)] s(10) e by (simp add: precedence_def parsed_def example_env_def)
  moreover have "bool_flag fs ''version'' = False"
    using L[OF m(11)] s(11) by (simp add: precedence_def parsed_def)
  moreover have "connection_timeout example_world fs = Inr 15000000000"
    by (simp add: T s(12) precedence_def example_env_def example_world_def Second_def)
  ultimately show ?thesis using p by simp
qed

text \<open>
  C2. For a boolean or an integer option whose environment variable is set to a text
  that does not parse, the resolver returns the declared default. The resolvers have no
  way to fail, and the whole run of the process is the run it makes with the variable
  unset: nothing is aborted and no error surfaces.
\<close>

theorem unparsable_env_yields_default:
  "(env k = Some v \<longrightarrow> ParseBool v = Inl e \<longrightarrow> getEnvBool env k b = b)
 \<and> (env k = Some v \<longrightarrow> ParseInt v 10 = Inl e \<longrightarrow> getEnvInt64 env k i = i)
 \<and> (FlagBool n k b \<in> set declarations \<longrightarrow> ParseBool v = Inl e \<longrightarrow>
      main w (env(k \<mapsto> v)) as = main w (env(k := None)) as
    \<and> boot w (env(k \<mapsto> v)) as = boot w (env(k := None)) as)
 \<and> (FlagInt64 n k i \<in> set declarations \<longrightarrow> ParseInt v 10 = Inl e \<longrightarrow>
      main w (env(k \<mapsto> v)) as = main w (env(k := None)) as
    \<and> boot w (env(k \<mapsto> v)) as = boot w (env(k := None)) as)"
proof -
  have a: "env k = Some v \<longrightarrow> ParseBool v = Inl e \<longrightarrow> getEnvBool env k b = b"
    by (simp add: getEnvBool_def)
  have b: "env k = Some v \<longrightarrow> ParseInt v 10 = Inl e \<longrightarrow> getEnvInt64 env k i = i"
    by (simp add: getEnvInt64_def)
  have c: "main w (env(k \<mapsto> v)) as = main w (env(k := None)) as"
    if "FlagBool n k b \<in> set declarations" "ParseBool v = Inl e"
    using that by (intro main_formal_cong formal_cong flag_default_unset_bool)
  have d: "main w (env(k \<mapsto> v)) as = main w (env(k := None)) as"
    if "FlagInt64 n k i \<in> set declarations" "ParseInt v 10 = Inl e"
    using that by (intro main_formal_cong formal_cong flag_default_unset_int64)
  show ?thesis using a b c d by (simp add: boot_def)
qed

theorem unparsable_env_yields_default_witness:
  "ParseBool ''no'' = Inl ErrSyntax
 \<and> getEnvBool [''REDIS_EXPORTER_SET_CLIENT_NAME'' \<mapsto> ''no''] ''REDIS_EXPORTER_SET_CLIENT_NAME'' True = True
 \<and> ParseInt ''1e3'' 10 = Inl ErrSyntax
 \<and> getEnvInt64 [''REDIS_EXPORTER_CHECK_KEYS_BATCH_SIZE'' \<mapsto> ''1e3''] ''REDIS_EXPORTER_CHECK_KEYS_BATCH_SIZE'' 1000 = 1000
 \<and> main example_world [''REDIS_EXPORTER_SET_CLIENT_NAME'' \<mapsto> ''no''] example_args
     = main example_world (Map.empty(''REDIS_EXPORTER_SET_CLIENT_NAME'' := None)) example_args
 \<and> boot example_world [''REDIS_EXPORTER_CHECK_KEYS_BATCH_SIZE'' \<mapsto> ''1e3''] example_args
     = boot example_world (Map.empty(''REDIS_EXPORTER_CHECK_KEYS_BATCH_SIZE'' := None)) example_args"
proof -
  have pb: "ParseBool ''no'' = Inl ErrSyntax"
    by (simp add: ParseBool_def)
  have pi: "ParseInt ''1e3'' 10 = Inl ErrSyntax"
    by (simp add: ParseUint_def digit_val_def lower_def maxUint64_def)
  have mb: "FlagBool ''set-client-name'' ''REDIS_EXPORTER_SET_CLIENT_NAME'' True \<in> set declarations"
    by (simp add: declarations_def)
  have mi: "FlagInt64 ''check-keys-batch-size'' ''REDIS_EXPORTER_CHECK_KEYS_BATCH_SIZE'' 1000 \<in> set declarations"
    by (simp add: declarations_def)
  note U = unparsable_env_yields_default
  have "getEnvBool [''REDIS_EXPORTER_SET_CLIENT_NAME'' \<mapsto> ''no''] ''REDIS_EXPORTER_SET_CLIENT_NAME'' True = True"
    using U[THEN conjunct1, THEN mp, THEN mp, OF _ pb, of "[''REDIS_EXPORTER_SET_CLIENT_NAME'' \<mapsto> ''no'']" "''REDIS_EXPORTER_SET_CLIENT_NAME''" True]
    by simp
  moreover have "getEnvInt64 [''REDIS_EXPORTER_CHECK_KEYS_BATCH_SIZE'' \<mapsto> ''1e3''] ''REDIS_EXPORTER_CHECK_KEYS_BATCH_SIZE'' 1000 = 1000"
    using U[THEN conjunct2, THEN conjunct1, THEN mp, THEN mp, OF _ pi, of "[''REDIS_EXPORTER_CHECK_KEYS_BATCH_SIZE'' \<mapsto> ''1e3'']" "''REDIS_EXPORTER_CHECK_KEYS_BATCH_SIZE''" 1000]
    by simp
  moreover have "main example_world [''REDIS_EXPORTER_SET_CLIENT_NAME'' \<mapsto> ''no''] example_args
     = main example_world (Map.empty(''REDIS_EXPORTER_SET_CLIENT_NAME'' := None)) example_args"
    using U[THEN conjunct2, THEN conjunct2, THEN conjunct1, THEN mp, THEN mp, OF mb pb, THEN conjunct1]
    by simp
  moreover have "boot example_world [''REDIS_EXPORTER_CHECK_KEYS_BATCH_SIZE'' \<mapsto> ''1e3''] example_args
     = boot example_world (Map.empty(''REDIS_EXPORTER_CHECK_KEYS_BATCH_SIZE'' := None)) example_args"
    using U[THEN conjunct2, THEN conjunct2, THEN conjunct2, THEN mp, THEN mp, OF mi pi, THEN conjunct2]
    by simp
  ultimately show ?thesis using pb pi by simp
qed

section \<open>Sequencing and what each statement can cause\<close>

lemma seq_Inl [simp]: "seq (es, Inl x) f = (es, Inl x)"
  by (simp add: seq_def)

lemma seq_Inr [simp]: "seq (es, Inr a) f = (es @ fst (f a), snd (f a))"
  by (simp add: seq_def split: prod.splits)

lemma seq_end: "snd m = Inl x \<Longrightarrow> seq m f = (fst m, Inl x)"
  by (cases m) simp

lemma seq_cont: "snd m = Inr a \<Longrightarrow> seq m f = (fst m @ fst (f a), snd (f a))"
  by (cases m) simp

lemma seq_all:
  assumes "\<forall>e\<in>set (fst m). P e" and "\<And>a. snd m = Inr a \<Longrightarrow> \<forall>e\<in>set (fst (f a)). P e"
  shows "\<forall>e\<in>set (fst (seq m f)). P e"
proof (cases "snd m")
  case (Inl x)
  then show ?thesis using assms(1) by (simp add: seq_end)
next
  case (Inr a)
  then show ?thesis using assms by (simp add: seq_cont) blast
qed

lemma seq_fatal:
  assumes "snd m = Inl (OsExit 1) \<or> (\<exists>a. snd m = Inr a)" and "\<And>a. snd m = Inr a \<Longrightarrow> snd (f a) = Inl (OsExit 1)"
  shows "snd (seq m f) = Inl (OsExit 1)"
  using assms by (cases m) (auto simp: seq_def split: prod.splits)

lemma seq_ends:
  assumes "\<And>a. snd m = Inr a \<Longrightarrow> \<exists>x. snd (f a) = Inl x"
  shows "\<exists>x. snd (seq m f) = Inl x"
proof (cases "snd m")
  case (Inl x)
  then show ?thesis by (simp add: seq_end)
next
  case (Inr a)
  then show ?thesis using assms by (simp add: seq_cont)
qed

text \<open>What each statement of main can cause.\<close>

lemma setup_logging_events:
  "e \<in> set (fst (setup_logging w fs)) \<Longrightarrow>
     (\<exists>f. e = SetFormatter f) \<or> e = SetOutput_Stdout \<or> (\<exists>l. e = SetLevel l)
     \<or> (\<exists>fmt as. e = Log Printf fmt as) \<or> (\<exists>fmt as. e = Log Debugln fmt as)"
  by (auto simp: setup_logging_def emit_def ret_def split: if_splits)

lemma setup_logging_result:
  "snd (setup_logging w fs) = (if bool_flag fs ''version'' then Inl Return else Inr ())"
  by (simp add: setup_logging_def emit_def ret_def)

lemma parse_timeout_events:
  "e \<in> set (fst (parse_timeout w fs)) \<Longrightarrow>
     (\<exists>err. connection_timeout w fs = Inl err \<and>
        e = Log Fatalf ''Couldn't parse connection timeout duration, err: %s'' [E err])"
  by (auto simp: parse_timeout_def fatal_def ret_def split: sum.splits)

lemma parse_timeout_result:
  "snd (parse_timeout w fs) = (case connection_timeout w fs of Inl err \<Rightarrow> Inl (OsExit 1) | Inr to \<Rightarrow> Inr to)"
  by (simp add: parse_timeout_def fatal_def ret_def split: sum.splits)

lemma load_passwords_events:
  "e \<in> set (fst (load_passwords w fs)) \<Longrightarrow>
     str_flag fs ''redis.password'' = [] \<and> str_flag fs ''redis.password-file'' \<noteq> [] \<and>
     (e = Call_LoadPwdFile (str_flag fs ''redis.password-file'') \<or>
      (\<exists>err. LoadPwdFile w (str_flag fs ''redis.password-file'') = Inl err \<and>
         e = Log Fatalf ''Error loading redis passwords from file %s, err: %s''
               [S (str_flag fs ''redis.password-file''), E err]))"
  by (auto simp: load_passwords_def fatal_def ret_def emit_def split: sum.splits if_splits)

lemma load_passwords_result:
  "snd (load_passwords w fs) = Inl (OsExit 1) \<or> (\<exists>a. snd (load_passwords w fs) = Inr a)"
  by (auto simp: load_passwords_def fatal_def ret_def emit_def split: sum.splits if_splits)

lemma read_scripts_events:
  "e \<in> set (fst (read_scripts w ps ls)) \<Longrightarrow>
     (\<exists>p. e = Call_ReadFile p) \<or> (\<exists>fmt as. e = Log Fatalf fmt as)"
  by (induction ps arbitrary: ls) (auto simp: fatal_def ret_def emit_def split: sum.splits)

lemma read_scripts_result:
  "snd (read_scripts w ps ls) = Inl (OsExit 1) \<or> (\<exists>a. snd (read_scripts w ps ls) = Inr a)"
  by (induction ps arbitrary: ls) (auto simp: fatal_def ret_def emit_def split: sum.splits)

lemma load_scripts_events:
  "e \<in> set (fst (load_scripts w fs)) \<Longrightarrow>
     (\<exists>p. e = Call_ReadFile p) \<or> (\<exists>fmt as. e = Log Fatalf fmt as)"
  using read_scripts_events by (auto simp: load_scripts_def ret_def split: if_splits)

lemma load_scripts_result:
  "snd (load_scripts w fs) = Inl (OsExit 1) \<or> (\<exists>a. snd (load_scripts w fs) = Inr a)"
  using read_scripts_result by (auto simp: load_scripts_def ret_def)

lemma new_registry_events:
  "e \<in> set (fst (new_registry fs)) \<Longrightarrow> (\<exists>cs. e = Call_MustRegister cs)"
  by (auto simp: new_registry_def ret_def emit_def split: if_splits)

lemma new_registry_result: "\<exists>a. snd (new_registry fs) = Inr a"
  by (auto simp: new_registry_def ret_def emit_def)

lemma new_exporter_events:
  "e \<in> set (fst (new_exporter w fs pm ls to reg)) \<Longrightarrow>
     (\<exists>addr options. e = Call_NewRedisExporter addr options) \<or> (\<exists>as. e = Log Fatal [] as)"
  by (auto simp: new_exporter_def Let_def fatal_def ret_def emit_def split: option.splits)

lemma new_exporter_result:
  "snd (new_exporter w fs pm ls to reg) = Inl (OsExit 1) \<or> (\<exists>a. snd (new_exporter w fs pm ls to reg) = Inr a)"
  by (auto simp: new_exporter_def Let_def fatal_def ret_def emit_def split: option.splits)

lemma verify_client_tls_mismatch:
  "(str_flag fs ''tls-client-cert-file'' \<noteq> []) \<noteq> (str_flag fs ''tls-client-key-file'' \<noteq> []) \<Longrightarrow>
   verify_client_tls w fs exp =
     ([Log Fatal ''TLS client key file and cert file should both be present'' []], Inl (OsExit 1))"
  by (simp add: verify_client_tls_def fatal_def)

lemma verify_client_tls_paired:
  "(str_flag fs ''tls-client-cert-file'' \<noteq> []) = (str_flag fs ''tls-client-key-file'' \<noteq> []) \<Longrightarrow>
   verify_client_tls w fs exp =
     (case CreateClientTLSConfig w exp of
        Some err \<Rightarrow> ([Call_CreateClientTLSConfig, Log Fatal [] [E err]], Inl (OsExit 1))
      | None \<Rightarrow> ([Call_CreateClientTLSConfig], Inr ()))"
  by (auto simp: verify_client_tls_def fatal_def emit_def ret_def split: option.splits)

lemma verify_client_tls_events:
  "e \<in> set (fst (verify_client_tls w fs exp)) \<Longrightarrow>
     e = Call_CreateClientTLSConfig \<or> (\<exists>fmt as. e = Log Fatal fmt as)"
  by (auto simp: verify_client_tls_def fatal_def emit_def ret_def split: option.splits if_splits)

lemma new_server_events:
  "e \<in> set (fst (new_server fs exp)) \<Longrightarrow> (\<exists>fmt as. e = Log Infof fmt as) \<or> (\<exists>fmt as. e = Log Debugf fmt as)"
  by (auto simp: new_server_def emit_def ret_def)

lemma new_server_result:
  "snd (new_server fs exp) = Inr \<lparr>Addr = str_flag fs ''web.listen-address'', Handler = exp, TLSConfig = None\<rparr>"
  by (simp add: new_server_def emit_def ret_def)

lemma main_parsed:
  "flag_Parse (formal env) as = Inr fs \<Longrightarrow> main w env as = startup w fs"
  by (simp add: main_def parse_flags_def ret_def)

lemma main_not_parsed:
  "flag_Parse (formal env) as = Inl x \<Longrightarrow> main w env as = ([], Inl x)"
  by (simp add: main_def parse_flags_def)

lemma boot_ended: "snd (main w env as) = Inl x \<Longrightarrow> boot w env as = (fst (main w env as), Inl x)"
  by (cases "main w env as") (simp add: boot_def)

lemma boot_started:
  "main w env as = (es, Inr (fs, srv)) \<Longrightarrow>
   boot w env as = (es @ fst (worker w fs srv), snd (worker w fs srv))"
  by (simp add: boot_def)

lemma worker_events:
  "e \<in> set (fst (worker w fs srv)) \<Longrightarrow>
     (\<exists>as. e = Log Debugf ''Bind as TLS using cert %s and key %s'' as)
   \<or> e = Call_CreateServerTLSConfig (str_flag fs ''tls-server-cert-file'')
           (str_flag fs ''tls-server-key-file'') (str_flag fs ''tls-server-ca-cert-file'')
           (str_flag fs ''tls-server-min-version'')
   \<or> (\<exists>as. e = Log Fatal [] as)
   \<or> (\<exists>s. e = Call_ListenAndServe s) \<or> (\<exists>s. e = Call_ListenAndServeTLS s)"
  by (auto simp: worker_def fatal_def emit_def ret_def split: sum.splits if_splits)

lemma boot_all:
  assumes "\<forall>e\<in>set (fst (main w env as)). P e"
    and "\<And>fs srv. \<forall>e\<in>set (fst (worker w fs srv)). P e"
  shows "\<forall>e\<in>set (fst (boot w env as)). P e"
  unfolding boot_def using assms by (intro seq_all) auto

lemma startup_timeout_fatal:
  assumes "\<not> bool_flag fs ''version''" and "connection_timeout w fs = Inl err"
  shows "startup w fs =
           (fst (setup_logging w fs) @
              [Log Fatalf ''Couldn't parse connection timeout duration, err: %s'' [E err]],
            Inl (OsExit 1))"
proof -
  have l: "setup_logging w fs = (fst (setup_logging w fs), Inr ())"
    using setup_logging_result[of w fs] assms(1) by (metis prod.collapse)
  have t: "parse_timeout w fs =
             ([Log Fatalf ''Couldn't parse connection timeout duration, err: %s'' [E err]], Inl (OsExit 1))"
    using assms(2) by (simp add: parse_timeout_def fatal_def)
  show ?thesis
    unfolding startup_def by (subst l, simp add: t)
qed

lemma setup_logging_quiet:
  "\<forall>e\<in>set (fst (setup_logging w fs)). \<not> loads_credentials e \<and> \<not> serves e"
  by (auto dest: setup_logging_events)

lemma startup_password_loads:
  "\<forall>e\<in>set (fst (startup w fs)). loads_passwords e \<longrightarrow>
     str_flag fs ''redis.password'' = [] \<and> str_flag fs ''redis.password-file'' \<noteq> [] \<and>
     e = Call_LoadPwdFile (str_flag fs ''redis.password-file'')"
  unfolding startup_def
  by (intro seq_all ballI)
     (auto dest: setup_logging_events parse_timeout_events load_passwords_events
        load_scripts_events new_registry_events new_exporter_events verify_client_tls_events
        new_server_events simp: emit_def ret_def)

lemma worker_no_password_loads: "\<forall>e\<in>set (fst (worker w fs srv)). \<not> loads_passwords e"
  by (auto dest: worker_events)

lemma startup_password_fatal:
  assumes "\<not> bool_flag fs ''version''" and "connection_timeout w fs = Inr to"
    and "str_flag fs ''redis.password'' = []" and "str_flag fs ''redis.password-file'' \<noteq> []"
    and "LoadPwdFile w (str_flag fs ''redis.password-file'') = Inl err"
  shows "startup w fs =
           (fst (setup_logging w fs) @
              [Call_LoadPwdFile (str_flag fs ''redis.password-file''),
               Log Fatalf ''Error loading redis passwords from file %s, err: %s''
                 [S (str_flag fs ''redis.password-file''), E err]],
            Inl (OsExit 1))"
proof -
  have l: "setup_logging w fs = (fst (setup_logging w fs), Inr ())"
    using setup_logging_result[of w fs] assms(1) by (metis prod.collapse)
  have t: "parse_timeout w fs = ([], Inr to)"
    using assms(2) by (simp add: parse_timeout_def ret_def)
  have p: "load_passwords w fs =
             ([Call_LoadPwdFile (str_flag fs ''redis.password-file''),
               Log Fatalf ''Error loading redis passwords from file %s, err: %s''
                 [S (str_flag fs ''redis.password-file''), E err]], Inl (OsExit 1))"
    using assms(3,4,5) by (simp add: load_passwords_def emit_def fatal_def)
  show ?thesis
    unfolding startup_def by (subst l, simp add: t p)
qed

lemma startup_password_consulted:
  assumes "\<not> bool_flag fs ''version''" and "connection_timeout w fs = Inr to"
    and "str_flag fs ''redis.password'' = []" and "str_flag fs ''redis.password-file'' \<noteq> []"
  shows "Call_LoadPwdFile (str_flag fs ''redis.password-file'') \<in> set (fst (startup w fs))"
proof -
  have l: "setup_logging w fs = (fst (setup_logging w fs), Inr ())"
    using setup_logging_result[of w fs] assms(1) by (metis prod.collapse)
  have t: "parse_timeout w fs = ([], Inr to)"
    using assms(2) by (simp add: parse_timeout_def ret_def)
  have p: "Call_LoadPwdFile (str_flag fs ''redis.password-file'') \<in> set (fst (load_passwords w fs))"
    using assms(3,4) by (simp add: load_passwords_def emit_def seq_def split: prod.splits sum.splits)
  have "set (fst (load_passwords w fs)) \<subseteq> set (fst (seq (load_passwords w fs) f))" for f :: "(string \<times> string) list \<Rightarrow> (flagset \<times> server) step"
    by (cases "load_passwords w fs"; cases "snd (load_passwords w fs)") (auto simp: seq_def split: prod.splits)
  with p show ?thesis
    unfolding startup_def by (subst l) (auto simp: t)
qed

lemma boot_fst_main: "set (fst (main w env as)) \<subseteq> set (fst (boot w env as))"
  by (cases "main w env as"; cases "snd (main w env as)") (auto simp: boot_def seq_def split: prod.splits)

lemma startup_client_mismatch_events:
  assumes "(str_flag fs ''tls-client-cert-file'' \<noteq> []) \<noteq> (str_flag fs ''tls-client-key-file'' \<noteq> [])"
  shows "\<forall>e\<in>set (fst (startup w fs)). \<not> serves e \<and> \<not> builds_client_tls e"
  unfolding startup_def
  by (intro seq_all ballI)
     (auto dest: setup_logging_events parse_timeout_events load_passwords_events
        load_scripts_events new_registry_events new_exporter_events
        simp: verify_client_tls_mismatch[OF assms])

lemma startup_client_mismatch_ends:
  assumes "(str_flag fs ''tls-client-cert-file'' \<noteq> []) \<noteq> (str_flag fs ''tls-client-key-file'' \<noteq> [])"
  shows "\<exists>x. snd (startup w fs) = Inl x"
  unfolding startup_def
  by (intro seq_ends) (simp add: verify_client_tls_mismatch[OF assms])

lemma startup_client_mismatch_fatal:
  assumes "(str_flag fs ''tls-client-cert-file'' \<noteq> []) \<noteq> (str_flag fs ''tls-client-key-file'' \<noteq> [])"
    and "\<not> bool_flag fs ''version''"
  shows "snd (startup w fs) = Inl (OsExit 1)"
  unfolding startup_def
  apply (intro seq_fatal)
              apply (simp add: setup_logging_result assms(2))
             apply (simp add: parse_timeout_result split: sum.splits)
            apply (rule load_passwords_result)
           apply (rule load_scripts_result)
          apply (simp add: new_registry_result)
         apply (rule new_exporter_result)
        apply (simp_all add: verify_client_tls_mismatch[OF assms(1)])
  done

lemma startup_pair_message:
  assumes "Log Fatal ''TLS client key file and cert file should both be present'' [] \<in> set (fst (startup w fs))"
  shows "(str_flag fs ''tls-client-cert-file'' \<noteq> []) \<noteq> (str_flag fs ''tls-client-key-file'' \<noteq> [])"
proof (rule ccontr)
  assume "\<not> ?thesis"
  then have p: "(str_flag fs ''tls-client-cert-file'' \<noteq> []) = (str_flag fs ''tls-client-key-file'' \<noteq> [])"
    by blast
  have "\<forall>e\<in>set (fst (startup w fs)).
          e \<noteq> Log Fatal ''TLS client key file and cert file should both be present'' []"
    unfolding startup_def
    by (intro seq_all ballI)
       (auto dest: setup_logging_events parse_timeout_events load_passwords_events
          load_scripts_events new_registry_events new_exporter_events new_server_events
          simp: verify_client_tls_paired[OF p] emit_def ret_def split: option.splits)
  with assms show False by blast
qed

lemma worker_plaintext:
  "\<not> (str_flag fs ''tls-server-cert-file'' \<noteq> [] \<and> str_flag fs ''tls-server-key-file'' \<noteq> []) \<Longrightarrow>
   worker w fs srv = ([Call_ListenAndServe srv], Inr (Plaintext, srv))"
  by (simp add: worker_def emit_def ret_def)

lemma worker_tls:
  assumes "str_flag fs ''tls-server-cert-file'' \<noteq> []" and "str_flag fs ''tls-server-key-file'' \<noteq> []"
    and "CreateServerTLSConfig w (Handler srv) (str_flag fs ''tls-server-cert-file'')
           (str_flag fs ''tls-server-key-file'') (str_flag fs ''tls-server-ca-cert-file'')
           (str_flag fs ''tls-server-min-version'') = Inr tls"
  shows "worker w fs srv =
           ([Log Debugf ''Bind as TLS using cert %s and key %s''
               [S (str_flag fs ''tls-server-cert-file''), S (str_flag fs ''tls-server-key-file'')],
             Call_CreateServerTLSConfig (str_flag fs ''tls-server-cert-file'')
               (str_flag fs ''tls-server-key-file'') (str_flag fs ''tls-server-ca-cert-file'')
               (str_flag fs ''tls-server-min-version''),
             Call_ListenAndServeTLS (srv\<lparr>TLSConfig := Some tls\<rparr>)],
            Inr (TLS, srv\<lparr>TLSConfig := Some tls\<rparr>))"
  using assms by (simp add: worker_def emit_def ret_def)

lemma worker_tls_failed:
  assumes "str_flag fs ''tls-server-cert-file'' \<noteq> []" and "str_flag fs ''tls-server-key-file'' \<noteq> []"
    and "CreateServerTLSConfig w (Handler srv) (str_flag fs ''tls-server-cert-file'')
           (str_flag fs ''tls-server-key-file'') (str_flag fs ''tls-server-ca-cert-file'')
           (str_flag fs ''tls-server-min-version'') = Inl err"
  shows "worker w fs srv =
           ([Log Debugf ''Bind as TLS using cert %s and key %s''
               [S (str_flag fs ''tls-server-cert-file''), S (str_flag fs ''tls-server-key-file'')],
             Call_CreateServerTLSConfig (str_flag fs ''tls-server-cert-file'')
               (str_flag fs ''tls-server-key-file'') (str_flag fs ''tls-server-ca-cert-file'')
               (str_flag fs ''tls-server-min-version''),
             Log Fatal [] [E err]],
            Inl (OsExit 1))"
  using assms by (simp add: worker_def emit_def ret_def fatal_def)

lemma seq_Inr_iff: "snd (seq m f) = Inr v \<longleftrightarrow> (\<exists>a. snd m = Inr a \<and> snd (f a) = Inr v)"
  by (cases m; cases "snd m") (auto simp: seq_def split: prod.splits)

lemma startup_value:
  assumes "startup w fs = (es, Inr (fs', srv))"
  shows "fs' = fs \<and> TLSConfig srv = None \<and> Addr srv = str_flag fs ''web.listen-address''"
proof -
  have "snd (startup w fs) = Inr (fs', srv)" using assms by simp
  then show ?thesis
    unfolding startup_def
    by (auto simp: seq_Inr_iff new_server_result emit_def ret_def)
qed

lemma seq_clean:
  assumes "(\<exists>v. snd m = Inr v) \<longrightarrow> (\<forall>e\<in>set (fst m). P e)"
    and "\<And>a. (\<exists>v. snd (f a) = Inr v) \<longrightarrow> (\<forall>e\<in>set (fst (f a)). P e)"
  shows "(\<exists>v. snd (seq m f) = Inr v) \<longrightarrow> (\<forall>e\<in>set (fst (seq m f)). P e)"
proof (cases "snd m")
  case (Inl x)
  then show ?thesis by (simp add: seq_end)
next
  case (Inr a)
  then show ?thesis using assms(1) assms(2)[of a] by (auto simp: seq_cont)
qed

lemma read_scripts_clean:
  "(\<exists>v. snd (read_scripts w ps ls) = Inr v) \<longrightarrow> (\<forall>e\<in>set (fst (read_scripts w ps ls)). \<not> is_fatal_log e)"
proof (induction ps arbitrary: ls)
  case Nil
  then show ?case by (simp add: ret_def)
next
  case (Cons p ps)
  show ?case
  proof (cases "ReadFile w p")
    case (Inl err)
    then show ?thesis by (simp add: emit_def fatal_def)
  next
    case (Inr bytes)
    then show ?thesis using Cons.IH[of "AList.update p bytes ls"] by (simp add: emit_def)
  qed
qed

lemma startup_clean:
  "(\<exists>v. snd (startup w fs) = Inr v) \<longrightarrow> (\<forall>e\<in>set (fst (startup w fs)). \<not> is_fatal_log e)"
  unfolding startup_def
  apply (intro seq_clean)
           apply (auto dest: setup_logging_events)[1]
          apply (simp add: parse_timeout_def fatal_def ret_def split: sum.splits)
         apply (simp add: load_passwords_def emit_def fatal_def ret_def split: sum.splits)
        apply (simp add: load_scripts_def ret_def read_scripts_clean)
       apply (simp add: new_registry_def emit_def ret_def)
      apply (simp add: new_exporter_def Let_def emit_def fatal_def ret_def split: option.splits)
     apply (simp add: verify_client_tls_def emit_def fatal_def ret_def split: option.splits)
    apply (simp add: new_server_def emit_def ret_def)
   apply (simp_all add: emit_def ret_def)
  done

lemma startup_no_server_tls: "\<forall>e\<in>set (fst (startup w fs)). \<not> builds_server_tls e"
  unfolding startup_def
  by (intro seq_all ballI)
     (auto dest: setup_logging_events parse_timeout_events load_passwords_events
        load_scripts_events new_registry_events new_exporter_events verify_client_tls_events
        new_server_events simp: emit_def ret_def)

lemma startup_version:
  assumes "bool_flag fs ''version''"
  shows "startup w fs = (fst (setup_logging w fs), Inl Return)"
proof -
  have "snd (setup_logging w fs) = Inl Return"
    using assms by (simp add: setup_logging_result)
  then show ?thesis unfolding startup_def by (rule seq_end)
qed

lemma startup_consulted_reached:
  assumes "Call_LoadPwdFile p \<in> set (fst (startup w fs))"
  shows "\<not> bool_flag fs ''version'' \<and> (\<exists>to. connection_timeout w fs = Inr to)"
proof -
  have q: "Call_LoadPwdFile p \<notin> set (fst (setup_logging w fs))"
    by (auto dest: setup_logging_events)
  have v: "\<not> bool_flag fs ''version''"
  proof
    assume "bool_flag fs ''version''"
    from startup_version[OF this, of w] assms q show False by simp
  qed
  have "\<exists>to. connection_timeout w fs = Inr to"
  proof (cases "connection_timeout w fs")
    case (Inl err)
    from startup_timeout_fatal[OF v Inl] assms q show ?thesis by simp
  next
    case (Inr to)
    then show ?thesis by blast
  qed
  with v show ?thesis by blast
qed

section \<open>Runs on the example inputs\<close>

lemma main_value:
  assumes "main w env as = (es, Inr (fs, srv))"
  shows "flag_Parse (formal env) as = Inr fs \<and> TLSConfig srv = None"
proof (cases "flag_Parse (formal env) as")
  case (Inl x)
  then show ?thesis using assms main_not_parsed[OF Inl, of w] by simp
next
  case (Inr fs0)
  then show ?thesis using assms main_parsed[OF Inr, of w] startup_value[of w fs0 es fs srv] by simp
qed

lemma main_no_server_tls: "\<forall>e\<in>set (fst (main w env as)). \<not> builds_server_tls e"
proof (cases "flag_Parse (formal env) as")
  case (Inl x)
  then show ?thesis by (simp add: main_not_parsed)
next
  case (Inr fs)
  then show ?thesis using startup_no_server_tls[of w fs] by (simp add: main_parsed)
qed

lemma seq_reaches:
  assumes "\<And>a. (\<exists>v. snd (f a) = Inr v) \<longrightarrow> e \<in> set (fst (f a))"
  shows "(\<exists>v. snd (seq m f) = Inr v) \<longrightarrow> e \<in> set (fst (seq m f))"
proof (cases "snd m")
  case (Inl x)
  then show ?thesis by (simp add: seq_end)
next
  case (Inr a)
  then show ?thesis using assms[of a] by (auto simp: seq_cont)
qed

lemma startup_spawns:
  "(\<exists>v. snd (startup w fs) = Inr v) \<longrightarrow> Go_worker \<in> set (fst (startup w fs))"
  unfolding startup_def
  apply (rule seq_reaches)
  apply (rule seq_reaches)
  apply (rule seq_reaches)
  apply (rule seq_reaches)
  apply (rule seq_reaches)
  apply (rule seq_reaches)
  apply (rule seq_reaches)
  apply (rule seq_reaches)
  apply (simp add: emit_def ret_def)
  done

lemma startup_runs:
  assumes "\<not> bool_flag fs ''version''" and "connection_timeout w fs = Inr to"
    and "str_flag fs ''redis.password'' \<noteq> [] \<or> str_flag fs ''redis.password-file'' = []"
    and "str_flag fs ''script'' = []"
    and "\<And>addr options. NewRedisExporter w addr options = None"
    and "(str_flag fs ''tls-client-cert-file'' \<noteq> []) = (str_flag fs ''tls-client-key-file'' \<noteq> [])"
    and "\<And>exp. CreateClientTLSConfig w exp = None"
  shows "\<exists>es srv. startup w fs = (es, Inr (fs, srv)) \<and> Go_worker \<in> set es"
proof -
  have "\<exists>v. snd (startup w fs) = Inr v"
    unfolding startup_def using assms
    by (auto simp: seq_Inr_iff setup_logging_result parse_timeout_result load_passwords_def
        load_scripts_def new_registry_def new_exporter_def Let_def verify_client_tls_paired
        new_server_result emit_def ret_def)
  then obtain v where v: "snd (startup w fs) = Inr v" ..
  obtain fs' srv where "v = (fs', srv)" by (cases v)
  with v have s: "startup w fs = (fst (startup w fs), Inr (fs', srv))"
    by (metis prod.collapse)
  from startup_value[OF s] have "fs' = fs" by simp
  with s startup_spawns[of w fs] v show ?thesis by (metis)
qed

lemma flag_Parse_strings:
  assumes "\<And>n raw. (n, raw) \<in> set as \<Longrightarrow> \<exists>s. fs n = Some (StringValue s)"
  shows "\<exists>fs'. flag_Parse fs as = Inr fs'"
  using assms
proof (induction as arbitrary: fs)
  case Nil
  then show ?case by simp
next
  case (Cons a as)
  obtain m raw where a: "a = (m, raw)" by (cases a)
  from Cons.prems[of m raw] a obtain s where s: "fs m = Some (StringValue s)" by auto
  have "\<exists>fs'. flag_Parse (fs(m \<mapsto> StringValue raw)) as = Inr fs'"
  proof (rule Cons.IH)
    fix n r assume "(n, r) \<in> set as"
    then obtain s' where "fs n = Some (StringValue s')" using Cons.prems[of n r] by auto
    then show "\<exists>s. (fs(m \<mapsto> StringValue raw)) n = Some (StringValue s)" by simp
  qed
  then show ?case using a s by simp
qed

lemma formal_string:
  "FlagString n k d \<in> set declarations \<Longrightarrow> \<exists>s. formal env n = Some (StringValue s)"
  using formal_declared[of "FlagString n k d" env] by simp

lemma declared:
  "FlagBoolLit ''version'' False \<in> set declarations"
  "FlagString ''connection-timeout'' ''REDIS_EXPORTER_CONNECTION_TIMEOUT'' ''15s'' \<in> set declarations"
  "FlagString ''redis.password'' ''REDIS_PASSWORD'' [] \<in> set declarations"
  "FlagString ''redis.password-file'' ''REDIS_PASSWORD_FILE'' [] \<in> set declarations"
  "FlagString ''script'' ''REDIS_EXPORTER_SCRIPT'' [] \<in> set declarations"
  "FlagString ''tls-client-key-file'' ''REDIS_EXPORTER_TLS_CLIENT_KEY_FILE'' [] \<in> set declarations"
  "FlagString ''tls-client-cert-file'' ''REDIS_EXPORTER_TLS_CLIENT_CERT_FILE'' [] \<in> set declarations"
  "FlagString ''tls-server-key-file'' ''REDIS_EXPORTER_TLS_SERVER_KEY_FILE'' [] \<in> set declarations"
  "FlagString ''tls-server-cert-file'' ''REDIS_EXPORTER_TLS_SERVER_CERT_FILE'' [] \<in> set declarations"
  "FlagString ''tls-server-ca-cert-file'' ''REDIS_EXPORTER_TLS_SERVER_CA_CERT_FILE'' [] \<in> set declarations"
  "FlagString ''tls-server-min-version'' ''REDIS_EXPORTER_TLS_SERVER_MIN_VERSION'' ''TLS1.2'' \<in> set declarations"
  by (simp_all add: declarations_def)

text \<open>
  The run of the example world on a command line of string flags that leaves the
  version, timeout, password, script and client TLS flags alone: it starts the worker.
\<close>

lemma example_run:
  assumes "\<And>n raw. (n, raw) \<in> set as \<Longrightarrow> \<exists>k d. FlagString n k d \<in> set declarations"
    and "supplied as ''version'' = None" and "supplied as ''connection-timeout'' = None"
    and "supplied as ''redis.password-file'' = None" and "supplied as ''script'' = None"
    and "supplied as ''tls-client-key-file'' = None" and "supplied as ''tls-client-cert-file'' = None"
  shows "\<exists>es fs srv. main example_world Map.empty as = (es, Inr (fs, srv)) \<and> Go_worker \<in> set es"
proof -
  have "\<exists>fs. flag_Parse (formal Map.empty) as = Inr fs"
    using assms(1) formal_string by (intro flag_Parse_strings) blast
  then obtain fs where p: "flag_Parse (formal Map.empty) as = Inr fs" ..
  have v: "\<not> bool_flag fs ''version''"
    using boollit_flag_resolved(1)[OF p declared(1)] assms(2) by (simp add: precedence_def)
  have t: "connection_timeout example_world fs = Inr (15 * Second)"
    using string_flag_resolved[OF p declared(2)] assms(3)
    by (simp add: precedence_def connection_timeout_def example_world_def)
  have f: "str_flag fs ''redis.password-file'' = []"
    using string_flag_resolved[OF p declared(4)] assms(4) by (simp add: precedence_def)
  have s: "str_flag fs ''script'' = []"
    using string_flag_resolved[OF p declared(5)] assms(5) by (simp add: precedence_def)
  have k: "str_flag fs ''tls-client-key-file'' = []"
    using string_flag_resolved[OF p declared(6)] assms(6) by (simp add: precedence_def)
  have c: "str_flag fs ''tls-client-cert-file'' = []"
    using string_flag_resolved[OF p declared(7)] assms(7) by (simp add: precedence_def)
  have "\<exists>es srv. startup example_world fs = (es, Inr (fs, srv)) \<and> Go_worker \<in> set es"
    by (rule startup_runs[OF v t]) (simp_all add: f s k c example_world_def)
  then show ?thesis using main_parsed[OF p, of example_world] by auto
qed

lemma before_in_suffix:
  assumes "a \<in> set es" and "b \<notin> set es"
  shows "before a b (es @ fs)" and "\<not> before b a (es @ fs)"
proof -
  have "takeWhile (\<lambda>e. e \<noteq> b) (es @ fs) = es @ takeWhile (\<lambda>e. e \<noteq> b) fs"
    using assms(2) by (intro takeWhile_append2) auto
  then show "before a b (es @ fs)" using assms(1) by (simp add: before_def)
  have "takeWhile (\<lambda>e. e \<noteq> a) (es @ fs) = takeWhile (\<lambda>e. e \<noteq> a) es"
    using assms(1) by (intro takeWhile_append1[of a]) auto
  moreover have "set (takeWhile (\<lambda>e. e \<noteq> a) es) \<subseteq> set es"
    by (auto dest: set_takeWhileD)
  ultimately show "\<not> before b a (es @ fs)" using assms(2) by (auto simp: before_def)
qed

section \<open>The inbound transport\<close>

text \<open>
  C3. Once \<^verbatim>\<open>main\<close> has started the worker, the server it hands over has no TLS
  configuration. If the inbound certificate path and key path are both empty, the worker
  calls \<^verbatim>\<open>ListenAndServe\<close> on that server and nothing else: the endpoint is served in
  plaintext. If both are given and \<^verbatim>\<open>CreateServerTLSConfig\<close> returns a configuration,
  the worker attaches exactly that configuration to the server and calls
  \<^verbatim>\<open>ListenAndServeTLS\<close> on it.
\<close>

theorem inbound_transport:
  assumes "main w env as = (es, Inr (fs, srv))"
  shows "TLSConfig srv = None
       \<and> (str_flag fs ''tls-server-cert-file'' = [] \<and> str_flag fs ''tls-server-key-file'' = [] \<longrightarrow>
            boot w env as = (es @ [Call_ListenAndServe srv], Inr (Plaintext, srv)))
       \<and> (str_flag fs ''tls-server-cert-file'' \<noteq> [] \<and> str_flag fs ''tls-server-key-file'' \<noteq> [] \<longrightarrow>
          CreateServerTLSConfig w (Handler srv) (str_flag fs ''tls-server-cert-file'')
            (str_flag fs ''tls-server-key-file'') (str_flag fs ''tls-server-ca-cert-file'')
            (str_flag fs ''tls-server-min-version'') = Inr tls \<longrightarrow>
            boot w env as =
              (es @ [Log Debugf ''Bind as TLS using cert %s and key %s''
                       [S (str_flag fs ''tls-server-cert-file''), S (str_flag fs ''tls-server-key-file'')],
                     Call_CreateServerTLSConfig (str_flag fs ''tls-server-cert-file'')
                       (str_flag fs ''tls-server-key-file'') (str_flag fs ''tls-server-ca-cert-file'')
                       (str_flag fs ''tls-server-min-version''),
                     Call_ListenAndServeTLS (srv\<lparr>TLSConfig := Some tls\<rparr>)],
               Inr (TLS, srv\<lparr>TLSConfig := Some tls\<rparr>)))"
proof -
  have "TLSConfig srv = None"
  proof (cases "flag_Parse (formal env) as")
    case (Inl x)
    then show ?thesis using assms main_not_parsed[OF Inl, of w] by simp
  next
    case (Inr fs0)
    then show ?thesis using assms main_parsed[OF Inr, of w] startup_value[of w fs0 es fs srv] by simp
  qed
  then show ?thesis
    using boot_started[OF assms] worker_plaintext[of fs w srv] worker_tls[of fs w srv tls]
    by auto
qed

text \<open>
  C10. If exactly one of the inbound certificate path and key path is given, the worker
  behaves as with neither: it calls \<^verbatim>\<open>ListenAndServe\<close> on the server without a TLS
  configuration and logs nothing; the whole run up to there has no fatal log entry and
  never calls \<^verbatim>\<open>CreateServerTLSConfig\<close>, so the path that was given is never loaded. The
  same mismatch of the outbound pair makes the check of \<^verbatim>\<open>main\<close> fatal.
\<close>

theorem unpaired_server_files_serve_plaintext:
  assumes "main w env as = (es, Inr (fs, srv))"
    and "(str_flag fs ''tls-server-cert-file'' \<noteq> []) \<noteq> (str_flag fs ''tls-server-key-file'' \<noteq> [])"
  shows "boot w env as = (es @ [Call_ListenAndServe srv], Inr (Plaintext, srv))
       \<and> TLSConfig srv = None
       \<and> worker w fs srv = ([Call_ListenAndServe srv], Inr (Plaintext, srv))
       \<and> (\<forall>e\<in>set (fst (worker w fs srv)). \<not> is_log e \<and> \<not> builds_server_tls e)
       \<and> (\<forall>e\<in>set (fst (boot w env as)). \<not> is_fatal_log e \<and> \<not> builds_server_tls e)
       \<and> ((str_flag fs' ''tls-client-cert-file'' \<noteq> []) \<noteq> (str_flag fs' ''tls-client-key-file'' \<noteq> []) \<longrightarrow>
            verify_client_tls w fs' exp =
              ([Log Fatal ''TLS client key file and cert file should both be present'' []],
               Inl (OsExit 1)))"
proof -
  have wk: "worker w fs srv = ([Call_ListenAndServe srv], Inr (Plaintext, srv))"
    using assms(2) by (intro worker_plaintext) auto
  have b: "boot w env as = (es @ [Call_ListenAndServe srv], Inr (Plaintext, srv))"
    using boot_started[OF assms(1)] wk by simp
  obtain fs0 where p: "flag_Parse (formal env) as = Inr fs0"
    using assms(1) main_not_parsed[of env as _ w] by (cases "flag_Parse (formal env) as") auto
  have st: "startup w fs0 = (es, Inr (fs, srv))" using main_parsed[OF p, of w] assms(1) by simp
  then have eq: "fs0 = fs" and tls: "TLSConfig srv = None" using startup_value[of w fs0 es fs srv] by auto
  have "\<forall>e\<in>set (fst (startup w fs)). \<not> is_fatal_log e \<and> \<not> builds_server_tls e"
    using startup_clean[of w fs] startup_no_server_tls[of w fs] st eq by auto
  then have "\<forall>e\<in>set (fst (boot w env as)). \<not> is_fatal_log e \<and> \<not> builds_server_tls e"
    using b st eq by auto
  then show ?thesis using wk b tls verify_client_tls_mismatch[of fs' w exp] by simp
qed

section \<open>Fatal configuration errors\<close>

text \<open>
  C4. If exactly one of the outbound client certificate path and client key path is
  non-empty, the check of \<^verbatim>\<open>main\<close> is fatal, and the process ends without ever starting
  the worker, calling the listener or building the client TLS configuration: nothing can
  connect. Unless only the version was asked for, it ends with status 1. If both or
  neither are given the check passes: its fatal message is never logged and \<^verbatim>\<open>main\<close>
  goes on to \<^verbatim>\<open>CreateClientTLSConfig\<close>.
\<close>

theorem client_pair_mismatch_is_fatal:
  assumes "flag_Parse (formal env) as = Inr fs"
  shows "((str_flag fs ''tls-client-cert-file'' \<noteq> []) \<noteq> (str_flag fs ''tls-client-key-file'' \<noteq> []) \<longrightarrow>
            verify_client_tls w fs exp =
              ([Log Fatal ''TLS client key file and cert file should both be present'' []],
               Inl (OsExit 1))
          \<and> (\<forall>e\<in>set (fst (boot w env as)). \<not> serves e \<and> \<not> builds_client_tls e)
          \<and> (\<exists>x. snd (boot w env as) = Inl x)
          \<and> (\<not> bool_flag fs ''version'' \<longrightarrow> snd (boot w env as) = Inl (OsExit 1)))
       \<and> ((str_flag fs ''tls-client-cert-file'' \<noteq> []) = (str_flag fs ''tls-client-key-file'' \<noteq> []) \<longrightarrow>
            Log Fatal ''TLS client key file and cert file should both be present'' []
              \<notin> set (fst (main w env as))
          \<and> verify_client_tls w fs exp =
              (case CreateClientTLSConfig w exp of
                 Some err \<Rightarrow> ([Call_CreateClientTLSConfig, Log Fatal [] [E err]], Inl (OsExit 1))
               | None \<Rightarrow> ([Call_CreateClientTLSConfig], Inr ())))"
proof -
  note m = main_parsed[OF assms, of w]
  have A: "(\<forall>e\<in>set (fst (boot w env as)). \<not> serves e \<and> \<not> builds_client_tls e)
          \<and> (\<exists>x. snd (boot w env as) = Inl x)
          \<and> (\<not> bool_flag fs ''version'' \<longrightarrow> snd (boot w env as) = Inl (OsExit 1))"
    if mm: "(str_flag fs ''tls-client-cert-file'' \<noteq> []) \<noteq> (str_flag fs ''tls-client-key-file'' \<noteq> [])"
  proof -
    from startup_client_mismatch_ends[OF mm, of w] obtain x where x: "snd (main w env as) = Inl x"
      using m by auto
    have b: "boot w env as = (fst (main w env as), Inl x)"
      using boot_ended[OF x] .
    have "\<forall>e\<in>set (fst (boot w env as)). \<not> serves e \<and> \<not> builds_client_tls e"
      using startup_client_mismatch_events[OF mm, of w] b m by simp
    moreover have "\<exists>x. snd (boot w env as) = Inl x" using b by simp
    moreover have "snd (boot w env as) = Inl (OsExit 1)" if "\<not> bool_flag fs ''version''"
      using startup_client_mismatch_fatal[OF mm that, of w] m x b by simp
    ultimately show ?thesis by blast
  qed
  have B: "Log Fatal ''TLS client key file and cert file should both be present'' []
              \<notin> set (fst (main w env as))"
    if "(str_flag fs ''tls-client-cert-file'' \<noteq> []) = (str_flag fs ''tls-client-key-file'' \<noteq> [])"
    using startup_pair_message[of w fs] that m by auto
  show ?thesis
    using A B verify_client_tls_mismatch[of fs w exp] verify_client_tls_paired[of fs w exp]
    by blast
qed

text \<open>
  C8. When the resolved connection timeout does not parse as a duration, no run reads a
  password file or a script or starts the worker or a listener, and every run ends. A
  run that is not a version query (which returns before the parse) ends right after the
  logging setup, with \<^verbatim>\<open>log.Fatalf\<close> naming the parse error and exit status 1. The text
  of the environment variable is parsed like one from the command line: when it is
  malformed it is not replaced by the default, unlike a boolean or an integer.
\<close>

theorem malformed_timeout_is_fatal:
  assumes "flag_Parse (formal env) as = Inr fs"
  shows "(connection_timeout w fs = Inl err \<longrightarrow>
            (\<forall>e\<in>set (fst (boot w env as)). \<not> loads_credentials e \<and> \<not> serves e)
          \<and> (\<exists>x. snd (boot w env as) = Inl x)
          \<and> (\<not> bool_flag fs ''version'' \<longrightarrow>
               boot w env as =
                 (fst (setup_logging w fs) @
                    [Log Fatalf ''Couldn't parse connection timeout duration, err: %s'' [E err]],
                  Inl (OsExit 1))))
       \<and> (supplied as ''connection-timeout'' = None \<longrightarrow>
          env ''REDIS_EXPORTER_CONNECTION_TIMEOUT'' = Some v \<longrightarrow>
          ParseDuration w v = Inl err \<longrightarrow>
            connection_timeout w fs = Inl err)"
proof -
  note m = main_parsed[OF assms, of w]
  have A: "boot w env as =
              (fst (setup_logging w fs) @
                 [Log Fatalf ''Couldn't parse connection timeout duration, err: %s'' [E err]],
               Inl (OsExit 1))"
    if "connection_timeout w fs = Inl err" "\<not> bool_flag fs ''version''"
    using m startup_timeout_fatal[OF that(2,1)] boot_ended[of w env as "OsExit 1"] by simp
  have V: "boot w env as = (fst (setup_logging w fs), Inl Return)" if "bool_flag fs ''version''"
    using m startup_version[OF that, of w] boot_ended[of w env as Return] by simp
  have B: "(\<forall>e\<in>set (fst (boot w env as)). \<not> loads_credentials e \<and> \<not> serves e)
          \<and> (\<exists>x. snd (boot w env as) = Inl x)"
    if t: "connection_timeout w fs = Inl err"
  proof (cases "bool_flag fs ''version''")
    case True
    then show ?thesis using V setup_logging_quiet[of w fs] by simp
  next
    case False
    then show ?thesis using A[OF t] setup_logging_quiet[of w fs] by auto
  qed
  have C: "connection_timeout w fs = Inl err"
    if "supplied as ''connection-timeout'' = None"
      "env ''REDIS_EXPORTER_CONNECTION_TIMEOUT'' = Some v" "ParseDuration w v = Inl err"
    using string_flag_resolved[OF assms declared(2)] that
    by (simp add: connection_timeout_def precedence_def)
  show ?thesis using A B C by blast
qed

text \<open>
  C9. Every call of \<^verbatim>\<open>LoadPwdFile\<close> in a run is made with the inline password empty and
  the password-file path non-empty, on that path; with an inline password there is no
  such call. Whenever the file is consulted and the load fails, the process logs the
  error with \<^verbatim>\<open>log.Fatalf\<close> and exits with status 1 at once. (The file is consulted
  in every run that gets past the timeout with an empty inline password and a path.)
\<close>

theorem password_file_only_without_inline_password:
  assumes "flag_Parse (formal env) as = Inr fs"
  shows "(\<forall>e\<in>set (fst (boot w env as)). loads_passwords e \<longrightarrow>
            str_flag fs ''redis.password'' = [] \<and> str_flag fs ''redis.password-file'' \<noteq> [] \<and>
            e = Call_LoadPwdFile (str_flag fs ''redis.password-file''))
       \<and> (str_flag fs ''redis.password'' \<noteq> [] \<longrightarrow>
            (\<forall>e\<in>set (fst (boot w env as)). \<not> loads_passwords e))
       \<and> (Call_LoadPwdFile p \<in> set (fst (boot w env as)) \<longrightarrow> LoadPwdFile w p = Inl err \<longrightarrow>
            boot w env as =
              (fst (setup_logging w fs) @
                 [Call_LoadPwdFile p,
                  Log Fatalf ''Error loading redis passwords from file %s, err: %s'' [S p, E err]],
               Inl (OsExit 1)))
       \<and> (\<not> bool_flag fs ''version'' \<longrightarrow> connection_timeout w fs = Inr to \<longrightarrow>
          str_flag fs ''redis.password'' = [] \<longrightarrow> str_flag fs ''redis.password-file'' \<noteq> [] \<longrightarrow>
            Call_LoadPwdFile (str_flag fs ''redis.password-file'') \<in> set (fst (boot w env as)))"
proof -
  note m = main_parsed[OF assms, of w]
  have A: "\<forall>e\<in>set (fst (boot w env as)). loads_passwords e \<longrightarrow>
            str_flag fs ''redis.password'' = [] \<and> str_flag fs ''redis.password-file'' \<noteq> [] \<and>
            e = Call_LoadPwdFile (str_flag fs ''redis.password-file'')"
    using startup_password_loads[of w fs] worker_no_password_loads
    by (intro boot_all) (simp_all add: m)
  have D: "Call_LoadPwdFile (str_flag fs ''redis.password-file'') \<in> set (fst (boot w env as))"
    if "\<not> bool_flag fs ''version''" "connection_timeout w fs = Inr to"
      "str_flag fs ''redis.password'' = []" "str_flag fs ''redis.password-file'' \<noteq> []"
    using startup_password_consulted[OF that] boot_fst_main[of w env as] m by auto
  have C: "boot w env as =
              (fst (setup_logging w fs) @
                 [Call_LoadPwdFile p,
                  Log Fatalf ''Error loading redis passwords from file %s, err: %s'' [S p, E err]],
               Inl (OsExit 1))"
    if c: "Call_LoadPwdFile p \<in> set (fst (boot w env as))" and l: "LoadPwdFile w p = Inl err"
  proof -
    from A c have f: "str_flag fs ''redis.password'' = []" "str_flag fs ''redis.password-file'' \<noteq> []"
      "p = str_flag fs ''redis.password-file''" by auto
    have "Call_LoadPwdFile p \<in> set (fst (startup w fs))"
    proof (cases "snd (main w env as)")
      case (Inl x)
      then show ?thesis using c boot_ended[OF Inl] m by simp
    next
      case (Inr v)
      obtain fs' srv where "v = (fs', srv)" by (cases v)
      with Inr have "main w env as = (fst (main w env as), Inr (fs', srv))"
        by (metis prod.collapse)
      from boot_started[OF this] c worker_no_password_loads[of w fs' srv] show ?thesis
        using m by auto
    qed
    from startup_consulted_reached[OF this] obtain to where
      "\<not> bool_flag fs ''version''" "connection_timeout w fs = Inr to" by blast
    from startup_password_fatal[OF this f(1,2)] l f(3) m boot_ended[of w env as "OsExit 1"]
    show ?thesis by simp
  qed
  show ?thesis using A C D by blast
qed

section \<open>The end of the serve loop and the shutdown\<close>

text \<open>
  C6. When the listener returns \<^verbatim>\<open>http.ErrServerClosed\<close>, or an error that
  \<^verbatim>\<open>errors.Is\<close> recognises as it, the worker logs nothing and does not end the process.
  Any other error it returns is logged with \<^verbatim>\<open>log.Fatalf\<close> and ends the process with
  status 1.
\<close>

theorem server_closed_is_not_an_error:
  "serve_returns t (Some ErrServerClosed) = ([], Inr ())
 \<and> (errors_Is e ErrServerClosed \<longrightarrow> serve_returns t (Some e) = ([], Inr ()))
 \<and> (\<not> errors_Is e ErrServerClosed \<longrightarrow>
       serve_returns t (Some e) =
         ([Log Fatalf (case t of TLS \<Rightarrow> ''TLS Server error: %v'' | Plaintext \<Rightarrow> ''Server error: %v'') [E e]],
          Inl (OsExit 1)))
 \<and> serve_returns t (Some (Error msg)) =
       ([Log Fatalf (case t of TLS \<Rightarrow> ''TLS Server error: %v'' | Plaintext \<Rightarrow> ''Server error: %v'') [E (Error msg)]],
        Inl (OsExit 1))
 \<and> serve_returns t None = ([], Inr ())"
  by (simp add: serve_returns_def ret_def fatal_def)

lemma main_step_attempts:
  "shutdown_attempts (trace (main_step m i)) =
     (if pc m = Waiting \<and> (\<exists>s. i = Delivered s) then shutdown_attempts (trace m) + 1
      else shutdown_attempts (trace m))"
  by (cases i; cases "pc m")
     (auto simp: shutdown_attempts_def send_def split: list.splits option.splits)

lemma main_step_pc:
  "pc (main_step m i) = Waiting \<longleftrightarrow> pc m = Waiting \<and> (\<forall>s. i \<noteq> Delivered s)"
  by (cases i; cases "pc m") (auto simp: send_def split: list.splits option.splits)

lemma run_attempts:
  "shutdown_attempts (trace (foldl main_step m ins)) =
     (if pc m = Waiting \<and> (\<exists>s. Delivered s \<in> set ins) then shutdown_attempts (trace m) + 1
      else shutdown_attempts (trace m))"
proof (induction ins arbitrary: m)
  case Nil
  then show ?case by simp
next
  case (Cons i ins)
  show ?case
    using Cons.IH[of "main_step m i"] main_step_attempts[of m i] main_step_pc[of m i]
    by (cases "\<exists>s. i = Delivered s") auto
qed

lemma main_step_deadline:
  assumes "\<forall>e\<in>set (trace m). is_shutdown e \<longrightarrow> e = Call_Shutdown (10 * Second)"
  shows "\<forall>e\<in>set (trace (main_step m i)). is_shutdown e \<longrightarrow> e = Call_Shutdown (10 * Second)"
  using assms by (cases i; cases "pc m") (auto simp: send_def split: list.splits option.splits)

lemma run_deadline:
  assumes "\<forall>e\<in>set (trace m). is_shutdown e \<longrightarrow> e = Call_Shutdown (10 * Second)"
  shows "\<forall>e\<in>set (trace (foldl main_step m ins)). is_shutdown e \<longrightarrow> e = Call_Shutdown (10 * Second)"
  using assms
proof (induction ins arbitrary: m)
  case Nil
  then show ?case by simp
next
  case (Cons i ins)
  from Cons.IH[OF main_step_deadline[OF Cons.prems, of i]] show ?case by simp
qed

text \<open>
  C5. The first termination signal that reaches the waiting main thread makes it call
  \<^verbatim>\<open>Shutdown\<close> once, under a deadline of ten seconds. Whatever is delivered afterwards,
  a run that received a signal has made exactly one such call, no run makes more than
  one, and every call carries the ten-second deadline. A signal delivered while the
  shutdown is underway leaves the thread in the shutdown and adds nothing to its trace.
\<close>

theorem one_shutdown_attempt:
  "main_step wait_for_signal (Delivered s) =
     \<lparr>quit = [], pc = ShuttingDown,
      trace = [Call_Notify [SIGINT, SIGTERM], Receive s,
               Log Infof ''Received %s signal, exiting'' [Sig s], Call_Shutdown 10000000000]\<rparr>
 \<and> shutdown_attempts (trace (run_main (Delivered s # ins))) = 1
 \<and> shutdown_attempts (trace (run_main ins)) \<le> 1
 \<and> (\<forall>e\<in>set (trace (run_main ins)). is_shutdown e \<longrightarrow> e = Call_Shutdown (10 * Second))
 \<and> (pc m = ShuttingDown \<longrightarrow>
       pc (main_step m (Delivered s')) = ShuttingDown
     \<and> trace (main_step m (Delivered s')) = trace m
     \<and> shutdown_attempts (trace (foldl main_step m (map Delivered sigs))) = shutdown_attempts (trace m))"
proof -
  have a: "main_step wait_for_signal (Delivered s) =
     \<lparr>quit = [], pc = ShuttingDown,
      trace = [Call_Notify [SIGINT, SIGTERM], Receive s,
               Log Infof ''Received %s signal, exiting'' [Sig s], Call_Shutdown 10000000000]\<rparr>"
    by (simp add: wait_for_signal_def send_def Second_def)
  have z: "shutdown_attempts (trace wait_for_signal) = 0" "pc wait_for_signal = Waiting"
    by (simp_all add: wait_for_signal_def shutdown_attempts_def)
  have b: "shutdown_attempts (trace (run_main (Delivered s # ins))) = 1"
    unfolding run_main_def using run_attempts[of wait_for_signal "Delivered s # ins"] z by auto
  have c: "shutdown_attempts (trace (run_main ins)) \<le> 1"
    unfolding run_main_def using run_attempts[of wait_for_signal ins] z by auto
  have d: "\<forall>e\<in>set (trace (run_main ins)). is_shutdown e \<longrightarrow> e = Call_Shutdown (10 * Second)"
    unfolding run_main_def by (rule run_deadline) (simp add: wait_for_signal_def)
  have e: "pc (main_step m (Delivered s')) = ShuttingDown \<and> trace (main_step m (Delivered s')) = trace m
     \<and> shutdown_attempts (trace (foldl main_step m (map Delivered sigs))) = shutdown_attempts (trace m)"
    if "pc m = ShuttingDown"
    using that run_attempts[of m "map Delivered sigs"] by simp
  show ?thesis using a b c d e by blast
qed

section \<open>Where the inbound TLS configuration is built\<close>

text \<open>
  C7, as stated: the server TLS configuration is complete before the background worker
  starts. On the example command line that gives both inbound files, the run calls
  \<^verbatim>\<open>CreateServerTLSConfig\<close>, and it does so after the \<^verbatim>\<open>go\<close> statement, not before it.
\<close>

theorem server_tls_built_before_worker_counterexample:
  "Go_worker \<in> set (fst (boot example_world Map.empty tls_args))
 \<and> Call_CreateServerTLSConfig ''c.pem'' ''k.pem'' [] ''TLS1.2''
      \<in> set (fst (boot example_world Map.empty tls_args))
 \<and> \<not> before (Call_CreateServerTLSConfig ''c.pem'' ''k.pem'' [] ''TLS1.2'') Go_worker
        (fst (boot example_world Map.empty tls_args))
 \<and> before Go_worker (Call_CreateServerTLSConfig ''c.pem'' ''k.pem'' [] ''TLS1.2'')
        (fst (boot example_world Map.empty tls_args))"
proof -
  have sup: "supplied tls_args ''version'' = None" "supplied tls_args ''connection-timeout'' = None"
    "supplied tls_args ''redis.password-file'' = None" "supplied tls_args ''script'' = None"
    "supplied tls_args ''tls-client-key-file'' = None" "supplied tls_args ''tls-client-cert-file'' = None"
    "supplied tls_args ''tls-server-cert-file'' = Some ''c.pem''"
    "supplied tls_args ''tls-server-key-file'' = Some ''k.pem''"
    "supplied tls_args ''tls-server-ca-cert-file'' = None"
    "supplied tls_args ''tls-server-min-version'' = None"
    by (simp_all add: supplied_def tls_args_def)
  have "\<exists>es fs srv. main example_world Map.empty tls_args = (es, Inr (fs, srv)) \<and> Go_worker \<in> set es"
    using declared(8,9) by (intro example_run sup) (auto simp: tls_args_def)
  then obtain es fs srv where m: "main example_world Map.empty tls_args = (es, Inr (fs, srv))"
    and g: "Go_worker \<in> set es" by blast
  from main_value[OF m] have p: "flag_Parse (formal Map.empty) tls_args = Inr fs" by simp
  have f: "str_flag fs ''tls-server-cert-file'' = ''c.pem''" "str_flag fs ''tls-server-key-file'' = ''k.pem''"
    "str_flag fs ''tls-server-ca-cert-file'' = []" "str_flag fs ''tls-server-min-version'' = ''TLS1.2''"
    using string_flag_resolved[OF p declared(9)] string_flag_resolved[OF p declared(8)]
      string_flag_resolved[OF p declared(10)] string_flag_resolved[OF p declared(11)] sup
    by (simp_all add: precedence_def)
  have wk: "fst (worker example_world fs srv) =
      [Log Debugf ''Bind as TLS using cert %s and key %s'' [S ''c.pem'', S ''k.pem''],
       Call_CreateServerTLSConfig ''c.pem'' ''k.pem'' [] ''TLS1.2'',
       Call_ListenAndServeTLS (srv\<lparr>TLSConfig := Some (TlsConfig ''c.pem k.pem'')\<rparr>)]"
    using worker_tls[of fs example_world srv "TlsConfig ''c.pem k.pem''"] f
    by (simp add: example_world_def)
  have b: "fst (boot example_world Map.empty tls_args) = es @ fst (worker example_world fs srv)"
    using boot_started[OF m] by simp
  have n: "Call_CreateServerTLSConfig ''c.pem'' ''k.pem'' [] ''TLS1.2'' \<notin> set es"
    using main_no_server_tls[of example_world Map.empty tls_args] m by auto
  show ?thesis
    unfolding b using before_in_suffix[OF g n, of "fst (worker example_world fs srv)"] g
    by (simp add: wk)
qed

text \<open>
  C7, amended: the main thread never builds the inbound TLS configuration; the worker
  builds it, after it has been started. Whenever the worker calls \<^verbatim>\<open>ListenAndServeTLS\<close>,
  \<^verbatim>\<open>CreateServerTLSConfig\<close> has returned before that call and the server the listener is
  called on carries exactly the configuration it returned; if the construction fails the
  worker ends the process without calling any listener. No server starts serving with a
  transport that is not fully built.
\<close>

theorem server_tls_built_on_worker_before_listening:
  "(\<forall>e\<in>set (fst (main w env as)). \<not> builds_server_tls e)
 \<and> (\<forall>e\<in>set (fst (worker w fs srv)). e \<noteq> Go_worker)
 \<and> (Call_ListenAndServeTLS srv' \<in> set (fst (worker w fs srv)) \<longrightarrow>
      (\<exists>tls. CreateServerTLSConfig w (Handler srv) (str_flag fs ''tls-server-cert-file'')
                (str_flag fs ''tls-server-key-file'') (str_flag fs ''tls-server-ca-cert-file'')
                (str_flag fs ''tls-server-min-version'') = Inr tls
           \<and> srv' = srv\<lparr>TLSConfig := Some tls\<rparr>)
    \<and> before (Call_CreateServerTLSConfig (str_flag fs ''tls-server-cert-file'')
                (str_flag fs ''tls-server-key-file'') (str_flag fs ''tls-server-ca-cert-file'')
                (str_flag fs ''tls-server-min-version''))
             (Call_ListenAndServeTLS srv') (fst (worker w fs srv)))
 \<and> (str_flag fs ''tls-server-cert-file'' \<noteq> [] \<and> str_flag fs ''tls-server-key-file'' \<noteq> [] \<longrightarrow>
    CreateServerTLSConfig w (Handler srv) (str_flag fs ''tls-server-cert-file'')
      (str_flag fs ''tls-server-key-file'') (str_flag fs ''tls-server-ca-cert-file'')
      (str_flag fs ''tls-server-min-version'') = Inl err \<longrightarrow>
      snd (worker w fs srv) = Inl (OsExit 1) \<and> (\<forall>e\<in>set (fst (worker w fs srv)). \<not> serves e))"
proof -
  have a: "\<forall>e\<in>set (fst (worker w fs srv)). e \<noteq> Go_worker"
    by (auto dest: worker_events)
  have b: "(\<exists>tls. CreateServerTLSConfig w (Handler srv) (str_flag fs ''tls-server-cert-file'')
                (str_flag fs ''tls-server-key-file'') (str_flag fs ''tls-server-ca-cert-file'')
                (str_flag fs ''tls-server-min-version'') = Inr tls
           \<and> srv' = srv\<lparr>TLSConfig := Some tls\<rparr>)
    \<and> before (Call_CreateServerTLSConfig (str_flag fs ''tls-server-cert-file'')
                (str_flag fs ''tls-server-key-file'') (str_flag fs ''tls-server-ca-cert-file'')
                (str_flag fs ''tls-server-min-version''))
             (Call_ListenAndServeTLS srv') (fst (worker w fs srv))"
    if "Call_ListenAndServeTLS srv' \<in> set (fst (worker w fs srv))"
    using that
    by (auto simp: worker_def before_def emit_def ret_def fatal_def split: if_splits sum.splits)
  have c: "snd (worker w fs srv) = Inl (OsExit 1) \<and> (\<forall>e\<in>set (fst (worker w fs srv)). \<not> serves e)"
    if "str_flag fs ''tls-server-cert-file'' \<noteq> []" "str_flag fs ''tls-server-key-file'' \<noteq> []"
      "CreateServerTLSConfig w (Handler srv) (str_flag fs ''tls-server-cert-file'')
      (str_flag fs ''tls-server-key-file'') (str_flag fs ''tls-server-ca-cert-file'')
      (str_flag fs ''tls-server-min-version'') = Inl err"
    using worker_tls_failed[OF that] by simp
  show ?thesis using main_no_server_tls[of w env as] a b c by blast
qed

section \<open>The properties on the example inputs\<close>

lemma parse_strings_exists:
  assumes "\<And>n raw. (n, raw) \<in> set as \<Longrightarrow> \<exists>k d. FlagString n k d \<in> set declarations"
  shows "\<exists>fs. flag_Parse (formal env) as = Inr fs"
  using assms formal_string by (intro flag_Parse_strings) blast

theorem inbound_transport_witness:
  "(case boot example_world Map.empty [] of
      (es, Inr (Plaintext, srv)) \<Rightarrow> TLSConfig srv = None \<and> last es = Call_ListenAndServe srv
    | _ \<Rightarrow> False)
 \<and> (case boot example_world Map.empty tls_args of
      (es, Inr (TLS, srv)) \<Rightarrow>
        TLSConfig srv = Some (TlsConfig ''c.pem k.pem'') \<and> last es = Call_ListenAndServeTLS srv
    | _ \<Rightarrow> False)"
proof -
  have "\<exists>es fs srv. main example_world Map.empty [] = (es, Inr (fs, srv)) \<and> Go_worker \<in> set es"
    by (intro example_run) (simp_all add: supplied_def)
  then obtain es fs srv where m: "main example_world Map.empty [] = (es, Inr (fs, srv))" by blast
  from main_value[OF m] have p: "flag_Parse (formal Map.empty) [] = Inr fs" by simp
  have f: "str_flag fs ''tls-server-cert-file'' = []" "str_flag fs ''tls-server-key-file'' = []"
    using string_flag_resolved[OF p declared(9)] string_flag_resolved[OF p declared(8)]
    by (simp_all add: precedence_def supplied_def)
  have one: "boot example_world Map.empty [] = (es @ [Call_ListenAndServe srv], Inr (Plaintext, srv))
      \<and> TLSConfig srv = None"
    using inbound_transport[OF m] f by simp
  have sup: "supplied tls_args ''version'' = None" "supplied tls_args ''connection-timeout'' = None"
    "supplied tls_args ''redis.password-file'' = None" "supplied tls_args ''script'' = None"
    "supplied tls_args ''tls-client-key-file'' = None" "supplied tls_args ''tls-client-cert-file'' = None"
    "supplied tls_args ''tls-server-cert-file'' = Some ''c.pem''"
    "supplied tls_args ''tls-server-key-file'' = Some ''k.pem''"
    "supplied tls_args ''tls-server-ca-cert-file'' = None"
    "supplied tls_args ''tls-server-min-version'' = None"
    by (simp_all add: supplied_def tls_args_def)
  have "\<exists>es fs srv. main example_world Map.empty tls_args = (es, Inr (fs, srv)) \<and> Go_worker \<in> set es"
    using declared(8,9) by (intro example_run sup) (auto simp: tls_args_def)
  then obtain es' fs' srv' where m': "main example_world Map.empty tls_args = (es', Inr (fs', srv'))"
    by blast
  from main_value[OF m'] have p': "flag_Parse (formal Map.empty) tls_args = Inr fs'" by simp
  have f': "str_flag fs' ''tls-server-cert-file'' = ''c.pem''" "str_flag fs' ''tls-server-key-file'' = ''k.pem''"
    "str_flag fs' ''tls-server-ca-cert-file'' = []" "str_flag fs' ''tls-server-min-version'' = ''TLS1.2''"
    using string_flag_resolved[OF p' declared(9)] string_flag_resolved[OF p' declared(8)]
      string_flag_resolved[OF p' declared(10)] string_flag_resolved[OF p' declared(11)] sup
    by (simp_all add: precedence_def)
  have c: "CreateServerTLSConfig example_world (Handler srv') (str_flag fs' ''tls-server-cert-file'')
            (str_flag fs' ''tls-server-key-file'') (str_flag fs' ''tls-server-ca-cert-file'')
            (str_flag fs' ''tls-server-min-version'') = Inr (TlsConfig ''c.pem k.pem'')"
    by (simp add: f' example_world_def)
  have two: "boot example_world Map.empty tls_args =
      (es' @ [Log Debugf ''Bind as TLS using cert %s and key %s'' [S ''c.pem'', S ''k.pem''],
              Call_CreateServerTLSConfig ''c.pem'' ''k.pem'' [] ''TLS1.2'',
              Call_ListenAndServeTLS (srv'\<lparr>TLSConfig := Some (TlsConfig ''c.pem k.pem'')\<rparr>)],
       Inr (TLS, srv'\<lparr>TLSConfig := Some (TlsConfig ''c.pem k.pem'')\<rparr>))"
    using inbound_transport[OF m', THEN conjunct2, THEN conjunct2, THEN mp, THEN mp, OF _ c] f'
    by simp
  show ?thesis by (simp add: one two)
qed

theorem unpaired_server_files_serve_plaintext_witness:
  "(case boot example_world Map.empty server_cert_only_args of
      (es, Inr (Plaintext, srv)) \<Rightarrow>
        TLSConfig srv = None \<and> last es = Call_ListenAndServe srv
      \<and> filter builds_server_tls es = [] \<and> filter is_fatal_log es = []
    | _ \<Rightarrow> False)"
proof -
  have sup: "supplied server_cert_only_args ''version'' = None"
    "supplied server_cert_only_args ''connection-timeout'' = None"
    "supplied server_cert_only_args ''redis.password-file'' = None"
    "supplied server_cert_only_args ''script'' = None"
    "supplied server_cert_only_args ''tls-client-key-file'' = None"
    "supplied server_cert_only_args ''tls-client-cert-file'' = None"
    "supplied server_cert_only_args ''tls-server-cert-file'' = Some ''c.pem''"
    "supplied server_cert_only_args ''tls-server-key-file'' = None"
    by (simp_all add: supplied_def server_cert_only_args_def)
  have "\<exists>es fs srv. main example_world Map.empty server_cert_only_args = (es, Inr (fs, srv))
          \<and> Go_worker \<in> set es"
    using declared(9) by (intro example_run sup) (auto simp: server_cert_only_args_def)
  then obtain es fs srv where
    m: "main example_world Map.empty server_cert_only_args = (es, Inr (fs, srv))" by blast
  from main_value[OF m] have p: "flag_Parse (formal Map.empty) server_cert_only_args = Inr fs"
    by simp
  have f: "str_flag fs ''tls-server-cert-file'' = ''c.pem''" "str_flag fs ''tls-server-key-file'' = []"
    using string_flag_resolved[OF p declared(9)] string_flag_resolved[OF p declared(8)] sup
    by (simp_all add: precedence_def)
  have mm: "(str_flag fs ''tls-server-cert-file'' \<noteq> []) \<noteq> (str_flag fs ''tls-server-key-file'' \<noteq> [])"
    by (simp add: f)
  note U = unpaired_server_files_serve_plaintext[OF m mm]
  have b: "boot example_world Map.empty server_cert_only_args =
             (es @ [Call_ListenAndServe srv], Inr (Plaintext, srv))"
    using U by simp
  have "filter builds_server_tls (fst (boot example_world Map.empty server_cert_only_args)) = []"
    "filter is_fatal_log (fst (boot example_world Map.empty server_cert_only_args)) = []"
    using U by (simp_all add: filter_empty_conv)
  then show ?thesis using U by (simp add: b)
qed

theorem client_pair_mismatch_is_fatal_witness:
  "snd (boot example_world Map.empty client_cert_only_args) = Inl (OsExit 1)
 \<and> filter serves (fst (boot example_world Map.empty client_cert_only_args)) = []
 \<and> filter builds_client_tls (fst (boot example_world Map.empty client_cert_only_args)) = []"
proof -
  have "\<exists>fs. flag_Parse (formal Map.empty) client_cert_only_args = Inr fs"
    using declared(7) by (intro parse_strings_exists) (auto simp: client_cert_only_args_def)
  then obtain fs where p: "flag_Parse (formal Map.empty) client_cert_only_args = Inr fs" ..
  have f: "str_flag fs ''tls-client-cert-file'' = ''client.pem''" "str_flag fs ''tls-client-key-file'' = []"
    using string_flag_resolved[OF p declared(7)] string_flag_resolved[OF p declared(6)]
    by (simp_all add: precedence_def supplied_def client_cert_only_args_def)
  have v: "\<not> bool_flag fs ''version''"
    using boollit_flag_resolved(1)[OF p declared(1)]
    by (simp add: precedence_def supplied_def client_cert_only_args_def)
  have mm: "(str_flag fs ''tls-client-cert-file'' \<noteq> []) \<noteq> (str_flag fs ''tls-client-key-file'' \<noteq> [])"
    by (simp add: f)
  note U = client_pair_mismatch_is_fatal[OF p, THEN conjunct1, THEN mp, OF mm]
  show ?thesis using U v by (simp add: filter_empty_conv)
qed

theorem malformed_timeout_is_fatal_witness:
  "snd (boot example_world Map.empty bad_timeout_args) = Inl (OsExit 1)
 \<and> last (fst (boot example_world Map.empty bad_timeout_args)) =
      Log Fatalf ''Couldn't parse connection timeout duration, err: %s'' [E (Error ''time: invalid duration'')]
 \<and> filter loads_credentials (fst (boot example_world Map.empty bad_timeout_args)) = []
 \<and> filter serves (fst (boot example_world Map.empty bad_timeout_args)) = []
 \<and> snd (boot example_world bad_timeout_env []) = Inl (OsExit 1)
 \<and> last (fst (boot example_world bad_timeout_env [])) =
      Log Fatalf ''Couldn't parse connection timeout duration, err: %s'' [E (Error ''time: invalid duration'')]"
proof -
  have "\<exists>fs. flag_Parse (formal Map.empty) bad_timeout_args = Inr fs"
    using declared(2) by (intro parse_strings_exists) (auto simp: bad_timeout_args_def)
  then obtain fs where p: "flag_Parse (formal Map.empty) bad_timeout_args = Inr fs" ..
  have v: "\<not> bool_flag fs ''version''"
    using boollit_flag_resolved(1)[OF p declared(1)]
    by (simp add: precedence_def supplied_def bad_timeout_args_def)
  have t: "connection_timeout example_world fs = Inl (Error ''time: invalid duration'')"
    using string_flag_resolved[OF p declared(2)]
    by (simp add: precedence_def supplied_def bad_timeout_args_def connection_timeout_def
        example_world_def)
  note A = malformed_timeout_is_fatal[OF p, THEN conjunct1, THEN mp, OF t]
  have A1: "filter loads_credentials (fst (boot example_world Map.empty bad_timeout_args)) = []"
    "filter serves (fst (boot example_world Map.empty bad_timeout_args)) = []"
    using A[THEN conjunct1] by (simp_all add: filter_empty_conv)
  have A2: "boot example_world Map.empty bad_timeout_args =
      (fst (setup_logging example_world fs) @
         [Log Fatalf ''Couldn't parse connection timeout duration, err: %s'' [E (Error ''time: invalid duration'')]],
       Inl (OsExit 1))"
    using A[THEN conjunct2, THEN conjunct2, THEN mp, OF v] .
  have "\<exists>fs. flag_Parse (formal bad_timeout_env) [] = Inr fs" by simp
  then obtain fs' where p': "flag_Parse (formal bad_timeout_env) [] = Inr fs'" ..
  have v': "\<not> bool_flag fs' ''version''"
    using boollit_flag_resolved(1)[OF p' declared(1)]
    by (simp add: precedence_def supplied_def)
  have d: "ParseDuration example_world ''15'' = Inl (Error ''time: invalid duration'')"
    by (simp add: example_world_def)
  have t': "connection_timeout example_world fs' = Inl (Error ''time: invalid duration'')"
    using malformed_timeout_is_fatal[OF p', THEN conjunct2, THEN mp, THEN mp, THEN mp, OF _ _ d]
    by (simp add: supplied_def bad_timeout_env_def)
  have B2: "boot example_world bad_timeout_env [] =
      (fst (setup_logging example_world fs') @
         [Log Fatalf ''Couldn't parse connection timeout duration, err: %s'' [E (Error ''time: invalid duration'')]],
       Inl (OsExit 1))"
    using malformed_timeout_is_fatal[OF p', THEN conjunct1, THEN mp, OF t', THEN conjunct2,
        THEN conjunct2, THEN mp, OF v'] .
  show ?thesis using A1 by (simp add: A2 B2)
qed

theorem password_file_only_without_inline_password_witness:
  "snd (boot example_world missing_pwd_file_env []) = Inl (OsExit 1)
 \<and> last (fst (boot example_world missing_pwd_file_env [])) =
      Log Fatalf ''Error loading redis passwords from file %s, err: %s''
        [S ''/missing.json'', E (Error ''open: no such file or directory'')]
 \<and> Call_LoadPwdFile ''/missing.json'' \<in> set (fst (boot example_world missing_pwd_file_env []))
 \<and> filter loads_passwords (fst (boot example_world inline_password_env [])) = []"
proof -
  have "\<exists>fs. flag_Parse (formal missing_pwd_file_env) [] = Inr fs" by simp
  then obtain fs where p: "flag_Parse (formal missing_pwd_file_env) [] = Inr fs" ..
  have v: "\<not> bool_flag fs ''version''"
    using boollit_flag_resolved(1)[OF p declared(1)] by (simp add: precedence_def supplied_def)
  have t: "connection_timeout example_world fs = Inr (15 * Second)"
    using string_flag_resolved[OF p declared(2)]
    by (simp add: precedence_def supplied_def missing_pwd_file_env_def connection_timeout_def
        example_world_def)
  have f: "str_flag fs ''redis.password'' = []" "str_flag fs ''redis.password-file'' = ''/missing.json''"
    using string_flag_resolved[OF p declared(3)] string_flag_resolved[OF p declared(4)]
    by (simp_all add: precedence_def supplied_def missing_pwd_file_env_def)
  have l: "LoadPwdFile example_world (str_flag fs ''redis.password-file'')
             = Inl (Error ''open: no such file or directory'')"
    by (simp add: f example_world_def)
  have f2: "str_flag fs ''redis.password-file'' \<noteq> []" by (simp add: f)
  note U = password_file_only_without_inline_password[OF p]
  have c1: "Call_LoadPwdFile ''/missing.json'' \<in> set (fst (boot example_world missing_pwd_file_env []))"
    using U[THEN conjunct2, THEN conjunct2, THEN conjunct2, THEN mp, THEN mp, THEN mp, THEN mp,
        OF v t f(1) f2] by (simp add: f)
  have c2: "boot example_world missing_pwd_file_env [] =
      (fst (setup_logging example_world fs) @
         [Call_LoadPwdFile ''/missing.json'',
          Log Fatalf ''Error loading redis passwords from file %s, err: %s''
            [S ''/missing.json'', E (Error ''open: no such file or directory'')]],
       Inl (OsExit 1))"
    using U[THEN conjunct2, THEN conjunct2, THEN conjunct1, THEN mp, THEN mp, OF c1] l
    by (simp add: f)
  have "\<exists>fs. flag_Parse (formal inline_password_env) [] = Inr fs" by simp
  then obtain fs' where p': "flag_Parse (formal inline_password_env) [] = Inr fs'" ..
  have i: "str_flag fs' ''redis.password'' \<noteq> []"
    using string_flag_resolved[OF p' declared(3)]
    by (simp add: precedence_def supplied_def inline_password_env_def)
  have c3: "filter loads_passwords (fst (boot example_world inline_password_env [])) = []"
    using password_file_only_without_inline_password[OF p', THEN conjunct2, THEN conjunct1,
        THEN mp, OF i]
    by (simp add: filter_empty_conv)
  show ?thesis using c1 c3 by (simp add: c2)
qed

theorem server_closed_is_not_an_error_witness:
  "errors_Is (Wrap ''accept'' ErrServerClosed) ErrServerClosed
 \<and> serve_returns TLS (Some (Wrap ''accept'' ErrServerClosed)) = ([], Inr ())
 \<and> serve_returns Plaintext (Some ErrServerClosed) = ([], Inr ())
 \<and> serve_returns Plaintext (Some (Error ''listen tcp :9121: bind: address already in use'')) =
      ([Log Fatalf ''Server error: %v'' [E (Error ''listen tcp :9121: bind: address already in use'')]],
       Inl (OsExit 1))
 \<and> serve_returns TLS (Some (Wrap ''tls'' (Error ''bad certificate''))) =
      ([Log Fatalf ''TLS Server error: %v'' [E (Wrap ''tls'' (Error ''bad certificate''))]],
       Inl (OsExit 1))"
proof -
  have a: "errors_Is (Wrap ''accept'' ErrServerClosed) ErrServerClosed" by simp
  have b: "\<not> errors_Is (Wrap ''tls'' (Error ''bad certificate'')) ErrServerClosed" by simp
  note U = server_closed_is_not_an_error
  have "serve_returns TLS (Some (Wrap ''accept'' ErrServerClosed)) = ([], Inr ())"
    using U[of TLS "Wrap ''accept'' ErrServerClosed", THEN conjunct2, THEN conjunct1, THEN mp, OF a] .
  moreover have "serve_returns Plaintext (Some ErrServerClosed) = ([], Inr ())"
    using U[of Plaintext, THEN conjunct1] .
  moreover have "serve_returns Plaintext (Some (Error ''listen tcp :9121: bind: address already in use'')) =
      ([Log Fatalf ''Server error: %v'' [E (Error ''listen tcp :9121: bind: address already in use'')]],
       Inl (OsExit 1))"
    using U[of Plaintext _ "''listen tcp :9121: bind: address already in use''",
        THEN conjunct2, THEN conjunct2, THEN conjunct2, THEN conjunct1] by simp
  moreover have "serve_returns TLS (Some (Wrap ''tls'' (Error ''bad certificate''))) =
      ([Log Fatalf ''TLS Server error: %v'' [E (Wrap ''tls'' (Error ''bad certificate''))]],
       Inl (OsExit 1))"
    using U[of TLS "Wrap ''tls'' (Error ''bad certificate'')", THEN conjunct2, THEN conjunct2,
        THEN conjunct1, THEN mp, OF b] by simp
  ultimately show ?thesis using a by simp
qed

theorem one_shutdown_attempt_witness:
  "shutdown_attempts (trace (run_main [Delivered SIGINT, Delivered SIGTERM, ShutdownReturned None])) = 1
 \<and> pc (main_step (main_step wait_for_signal (Delivered SIGINT)) (Delivered SIGTERM)) = ShuttingDown
 \<and> trace (main_step (main_step wait_for_signal (Delivered SIGINT)) (Delivered SIGTERM)) =
     [Call_Notify [SIGINT, SIGTERM], Receive SIGINT,
      Log Infof ''Received %s signal, exiting'' [Sig SIGINT], Call_Shutdown 10000000000]
 \<and> filter is_shutdown (trace (run_main [Delivered SIGTERM, Delivered SIGINT, ShutdownReturned None]))
     = [Call_Shutdown 10000000000]"
proof -
  note U = one_shutdown_attempt
  have first: "main_step wait_for_signal (Delivered SIGINT) =
     \<lparr>quit = [], pc = ShuttingDown,
      trace = [Call_Notify [SIGINT, SIGTERM], Receive SIGINT,
               Log Infof ''Received %s signal, exiting'' [Sig SIGINT], Call_Shutdown 10000000000]\<rparr>"
    using U[of SIGINT, THEN conjunct1] .
  have sd: "pc (main_step wait_for_signal (Delivered SIGINT)) = ShuttingDown"
    unfolding first by simp
  have one: "shutdown_attempts (trace (run_main [Delivered SIGINT, Delivered SIGTERM, ShutdownReturned None])) = 1"
    using U[of SIGINT "[Delivered SIGTERM, ShutdownReturned None]", THEN conjunct2, THEN conjunct1] .
  have second: "pc (main_step (main_step wait_for_signal (Delivered SIGINT)) (Delivered SIGTERM)) = ShuttingDown
     \<and> trace (main_step (main_step wait_for_signal (Delivered SIGINT)) (Delivered SIGTERM))
        = trace (main_step wait_for_signal (Delivered SIGINT))"
    using U[where m = "main_step wait_for_signal (Delivered SIGINT)" and s' = SIGTERM,
        THEN conjunct2, THEN conjunct2, THEN conjunct2, THEN conjunct2, THEN mp, OF sd]
    by blast
  have dl: "\<forall>e\<in>set (trace (run_main [Delivered SIGTERM, Delivered SIGINT, ShutdownReturned None])).
              is_shutdown e \<longrightarrow> e = Call_Shutdown (10 * Second)"
    using U[where ins = "[Delivered SIGTERM, Delivered SIGINT, ShutdownReturned None]",
        THEN conjunct2, THEN conjunct2, THEN conjunct2, THEN conjunct1] .
  have cnt: "length (filter is_shutdown (trace (run_main [Delivered SIGTERM, Delivered SIGINT, ShutdownReturned None]))) = 1"
    using U[of SIGTERM "[Delivered SIGINT, ShutdownReturned None]", THEN conjunct2, THEN conjunct1]
    by (simp add: shutdown_attempts_def)
  then obtain x where x: "filter is_shutdown (trace (run_main [Delivered SIGTERM, Delivered SIGINT, ShutdownReturned None])) = [x]"
    by (auto simp: length_Suc_conv)
  then have "x \<in> set (trace (run_main [Delivered SIGTERM, Delivered SIGINT, ShutdownReturned None])) \<and> is_shutdown x"
  proof -
    have "x \<in> set (filter is_shutdown (trace (run_main [Delivered SIGTERM, Delivered SIGINT, ShutdownReturned None])))"
      by (simp add: x)
    then show ?thesis by simp
  qed
  with dl have "x = Call_Shutdown 10000000000" by (simp add: Second_def)
  moreover have "trace (main_step wait_for_signal (Delivered SIGINT)) =
     [Call_Notify [SIGINT, SIGTERM], Receive SIGINT,
      Log Infof ''Received %s signal, exiting'' [Sig SIGINT], Call_Shutdown 10000000000]"
    unfolding first by simp
  ultimately show ?thesis using x one second by metis
qed

lemma tls_flags_values:
  "str_flag tls_flags ''tls-server-cert-file'' = ''c.pem''"
  "str_flag tls_flags ''tls-server-key-file'' = ''k.pem''"
  "str_flag tls_flags ''tls-server-ca-cert-file'' = []"
  "str_flag tls_flags ''tls-server-min-version'' = ''TLS1.2''"
  using formal_declared[OF declared(10), of Map.empty] formal_declared[OF declared(11), of Map.empty]
  by (simp_all add: tls_flags_def str_flag_def getEnv_def)

lemma old_tls_flags_values:
  "str_flag old_tls_flags ''tls-server-cert-file'' = ''c.pem''"
  "str_flag old_tls_flags ''tls-server-key-file'' = ''k.pem''"
  "str_flag old_tls_flags ''tls-server-ca-cert-file'' = []"
  "str_flag old_tls_flags ''tls-server-min-version'' = ''SSLv3''"
  using formal_declared[OF declared(10), of Map.empty]
  by (simp_all add: old_tls_flags_def tls_flags_def str_flag_def getEnv_def)

theorem server_tls_built_on_worker_before_listening_witness:
  "filter builds_server_tls (fst (main example_world Map.empty tls_args)) = []
 \<and> Call_ListenAndServeTLS (example_server\<lparr>TLSConfig := Some (TlsConfig ''c.pem k.pem'')\<rparr>)
      \<in> set (fst (worker example_world tls_flags example_server))
 \<and> before (Call_CreateServerTLSConfig ''c.pem'' ''k.pem'' [] ''TLS1.2'')
      (Call_ListenAndServeTLS (example_server\<lparr>TLSConfig := Some (TlsConfig ''c.pem k.pem'')\<rparr>))
      (fst (worker example_world tls_flags example_server))
 \<and> snd (worker example_world old_tls_flags example_server) = Inl (OsExit 1)
 \<and> filter serves (fst (worker example_world old_tls_flags example_server)) = []"
proof -
  note U = server_tls_built_on_worker_before_listening
  have a: "filter builds_server_tls (fst (main example_world Map.empty tls_args)) = []"
    using U[where w = example_world and env = Map.empty and as = tls_args, THEN conjunct1]
    by (simp add: filter_empty_conv)
  have c: "CreateServerTLSConfig example_world (Handler example_server)
             (str_flag tls_flags ''tls-server-cert-file'') (str_flag tls_flags ''tls-server-key-file'')
             (str_flag tls_flags ''tls-server-ca-cert-file'') (str_flag tls_flags ''tls-server-min-version'')
           = Inr (TlsConfig ''c.pem k.pem'')"
    by (simp add: tls_flags_values example_world_def)
  have l: "Call_ListenAndServeTLS (example_server\<lparr>TLSConfig := Some (TlsConfig ''c.pem k.pem'')\<rparr>)
      \<in> set (fst (worker example_world tls_flags example_server))"
    using worker_tls[OF _ _ c] by (simp add: tls_flags_values)
  have b: "before (Call_CreateServerTLSConfig ''c.pem'' ''k.pem'' [] ''TLS1.2'')
      (Call_ListenAndServeTLS (example_server\<lparr>TLSConfig := Some (TlsConfig ''c.pem k.pem'')\<rparr>))
      (fst (worker example_world tls_flags example_server))"
    using U[where w = example_world and fs = tls_flags and srv = example_server,
        THEN conjunct2, THEN conjunct2, THEN conjunct1, THEN mp, OF l]
    by (simp add: tls_flags_values)
  have e: "CreateServerTLSConfig example_world (Handler example_server)
             (str_flag old_tls_flags ''tls-server-cert-file'') (str_flag old_tls_flags ''tls-server-key-file'')
             (str_flag old_tls_flags ''tls-server-ca-cert-file'') (str_flag old_tls_flags ''tls-server-min-version'')
           = Inl (Error ''unsupported TLS version'')"
    by (simp add: old_tls_flags_values example_world_def)
  have d: "snd (worker example_world old_tls_flags example_server) = Inl (OsExit 1)
     \<and> (\<forall>e\<in>set (fst (worker example_world old_tls_flags example_server)). \<not> serves e)"
    using U[where w = example_world and fs = old_tls_flags and srv = example_server,
        THEN conjunct2, THEN conjunct2, THEN conjunct2, THEN mp, THEN mp, OF _ e]
    by (simp add: old_tls_flags_values)
  show ?thesis using a l b d by (simp add: filter_empty_conv)
qed

end
